theory Spec2Isabelle
  imports Main "HOL-Library.Multiset" "HOL-Library.Sublist"
begin

section \<open>JavaScript values as the console sees them\<close>

text \<open>
  The console (app.js) works on values produced by \<open>JSON.parse\<close> and on the objects it
  builds from them. An object is kept as the list of its own properties in enumeration
  order, because \<open>Object.entries\<close> order decides the order of a conversation that is
  rebuilt from legacy flat fields. \<open>JUndefined\<close> is what a property read gives for a
  missing property. Numbers are integer literals below \<open>1e21\<close>, which \<open>String\<close> renders
  in decimal; strings are lists of code units, the code units below 256.
\<close>

datatype jsval =
    JUndefined
  | JNull
  | JBool bool
  | JNum int
  | JStr string
  | JArr "jsval list"
  | JObj "(string \<times> jsval) list"

datatype error = Error string | TypeError

type_synonym jsobj = "(string \<times> jsval) list"

text \<open>ToBoolean: \<open>undefined\<close>, \<open>null\<close>, \<open>false\<close>, \<open>0\<close> and \<open>''\<close> are falsy.\<close>

fun truthy :: "jsval \<Rightarrow> bool" where
  "truthy JUndefined = False"
| "truthy JNull = False"
| "truthy (JBool b) = b"
| "truthy (JNum n) = (n \<noteq> 0)"
| "truthy (JStr s) = (s \<noteq> [])"
| "truthy (JArr xs) = True"
| "truthy (JObj kvs) = True"

text \<open>\<open>a || b\<close> on values.\<close>

definition js_or :: "jsval \<Rightarrow> jsval \<Rightarrow> jsval" where
  "js_or a b = (if truthy a then a else b)"

text \<open>\<open>v != null\<close>: neither \<open>null\<close> nor \<open>undefined\<close>.\<close>

fun not_nullish :: "jsval \<Rightarrow> bool" where
  "not_nullish JUndefined = False"
| "not_nullish JNull = False"
| "not_nullish v = True"

text \<open>\<open>v && typeof v === 'object'\<close>: a non-null object, arrays included.\<close>

fun is_object :: "jsval \<Rightarrow> bool" where
  "is_object (JArr xs) = True"
| "is_object (JObj kvs) = True"
| "is_object v = False"

fun is_array :: "jsval \<Rightarrow> bool" where
  "is_array (JArr xs) = True"
| "is_array v = False"

text \<open>
  A property read \<open>v.k\<close> for the property names the console uses. None of them is an
  index, \<open>length\<close> or a prototype method, so only a plain object can hold them; every
  read in the modelled code is on a value already checked to be neither \<open>null\<close> nor
  \<open>undefined\<close>, apart from the reads written with \<open>js_get_checked\<close>.
\<close>

fun js_get :: "jsval \<Rightarrow> string \<Rightarrow> jsval" where
  "js_get (JObj kvs) k = (case map_of kvs k of Some v \<Rightarrow> v | None \<Rightarrow> JUndefined)"
| "js_get v k = JUndefined"

fun js_get_checked :: "jsval \<Rightarrow> string \<Rightarrow> error + jsval" where
  "js_get_checked JUndefined k = Inl TypeError"
| "js_get_checked JNull k = Inl TypeError"
| "js_get_checked v k = Inr (js_get v k)"

text \<open>\<open>Object.prototype.hasOwnProperty.call(v, k)\<close> for a non-index name.\<close>

fun has_own :: "jsval \<Rightarrow> string \<Rightarrow> bool" where
  "has_own (JObj kvs) k = (k \<in> set (map fst kvs))"
| "has_own v k = False"

text \<open>
  Defining an own data property: an existing key keeps its place, a new one goes last.
  (An engine enumerates index-like keys first; the modelled functions never look at
  where such keys sit, and the lists here leave them where they were defined.)
\<close>

fun js_set :: "jsobj \<Rightarrow> string \<Rightarrow> jsval \<Rightarrow> jsobj" where
  "js_set [] k v = [(k, v)]"
| "js_set ((k', v') # kvs) k v =
     (if k' = k then (k, v) # kvs else (k', v') # js_set kvs k v)"

subsection \<open>Strings\<close>

text \<open>
  Which code units \<open>trim\<close> strips and what \<open>toUpperCase\<close> returns is fixed by the
  language on the ASCII range: the white space there is tab, LF, VT, FF, CR and space, and
  the letters a to z have the capitals A to Z. Outside ASCII both follow the Unicode
  tables of the engine: U+00A0 is white space, the capital of the sharp s is the two
  letters SS. Those tables are a parameter of every function that trims or upper-cases:
  \<open>white_space\<close> tells which code units outside ASCII are white space or line terminators,
  and \<open>upper_case\<close> is the engine's \<open>toUpperCase\<close> on a string that holds a code unit
  outside ASCII. A letter that has another case is never white space. A capital that
  needs a code unit above 255 (those of U+00B5 and U+00FF) is outside what a string of
  the model holds.
\<close>

record unicode_tables =
  white_space :: "char \<Rightarrow> bool"
  upper_case :: "string \<Rightarrow> string"

definition is_ascii :: "char \<Rightarrow> bool" where
  "is_ascii c = ((of_char c :: nat) < 128)"

definition ascii_space :: "char \<Rightarrow> bool" where
  "ascii_space c = (let n = (of_char c :: nat) in (9 \<le> n \<and> n \<le> 13) \<or> n = 32)"

text \<open>
  The capitals that lower-casing changes, A to Z and U+00C0 to U+00DE without the
  multiplication sign U+00D7, and the letters 32 code units above them that it gives.
\<close>

definition is_capital :: "char \<Rightarrow> bool" where
  "is_capital c =
     (let n = (of_char c :: nat) in (65 \<le> n \<and> n \<le> 90) \<or> (192 \<le> n \<and> n \<le> 222 \<and> n \<noteq> 215))"

definition is_small :: "char \<Rightarrow> bool" where
  "is_small c =
     (let n = (of_char c :: nat) in (97 \<le> n \<and> n \<le> 122) \<or> (224 \<le> n \<and> n \<le> 254 \<and> n \<noteq> 247))"

definition is_space :: "unicode_tables \<Rightarrow> char \<Rightarrow> bool" where
  "is_space tbl c =
     (if is_ascii c then ascii_space c
      else \<not> is_capital c \<and> \<not> is_small c \<and> white_space tbl c)"

text \<open>Removing the leading and the trailing code units that satisfy a predicate.\<close>

definition strip :: "(char \<Rightarrow> bool) \<Rightarrow> string \<Rightarrow> string" where
  "strip P s = rev (dropWhile P (rev (dropWhile P s)))"

definition trim :: "unicode_tables \<Rightarrow> string \<Rightarrow> string" where
  "trim tbl s = strip (is_space tbl) s"

text \<open>
  \<open>toLowerCase\<close> works code unit by code unit on the code units below 256: a capital
  becomes the letter 32 code units above it, and every other code unit, the sharp s
  included, stays as it is.
\<close>

definition lower_char :: "char \<Rightarrow> char" where
  "lower_char c = (if is_capital c then char_of ((of_char c :: nat) + 32) else c)"

definition toLowerCase :: "string \<Rightarrow> string" where
  "toLowerCase s = map lower_char s"

text \<open>The capital of an ASCII letter.\<close>

definition upper_char :: "char \<Rightarrow> char" where
  "upper_char c =
     (let n = (of_char c :: nat) in if 97 \<le> n \<and> n \<le> 122 then char_of (n - 32) else c)"

definition toUpperCase :: "unicode_tables \<Rightarrow> string \<Rightarrow> string" where
  "toUpperCase tbl s = (if list_all is_ascii s then map upper_char s else upper_case tbl s)"

text \<open>
  A table for the examples: U+00A0 is white space, the sharp s (U+00DF) upper-cases to
  \<open>SS\<close> and the letters U+00E0 to U+00FE, the division sign apart, to the code unit 32
  below them.
\<close>

definition example_tables :: unicode_tables where
  "example_tables =
     \<lparr> white_space = (\<lambda>c. (of_char c :: nat) = 160),
       upper_case = concat \<circ> map (\<lambda>c. let n = (of_char c :: nat) in
                       if n = 223 then ''SS''
                       else if (97 \<le> n \<and> n \<le> 122) \<or> (224 \<le> n \<and> n \<le> 254 \<and> n \<noteq> 247)
                       then [char_of (n - 32)] else [c]) \<rparr>"

text \<open>Decimal rendering of integers, as \<open>String(n)\<close> gives for safe integers.\<close>

definition digit_char :: "nat \<Rightarrow> char" where
  "digit_char d = char_of (48 + d)"

fun show_nat :: "nat \<Rightarrow> string" where
  "show_nat n = (if n < 10 then [digit_char n] else show_nat (n div 10) @ [digit_char (n mod 10)])"

declare show_nat.simps [simp del]

definition show_int :: "int \<Rightarrow> string" where
  "show_int i = (if i < 0 then CHR ''-'' # show_nat (nat (- i)) else show_nat (nat i))"

fun join :: "string \<Rightarrow> string list \<Rightarrow> string" where
  "join sep [] = []"
| "join sep [x] = x"
| "join sep (x # y # ys) = x @ sep @ join sep (y # ys)"

text \<open>
  \<open>String(v)\<close>. An array is the comma-join of its elements, with \<open>null\<close> and
  \<open>undefined\<close> elements rendered empty. An object is rendered by
  \<open>Object.prototype.toString\<close>; an object that carries a property of its own named
  \<open>toString\<close> or \<open>valueOf\<close> makes \<open>String\<close> throw instead, and is outside the model.
\<close>

fun js_String :: "jsval \<Rightarrow> string" where
  "js_String JUndefined = ''undefined''"
| "js_String JNull = ''null''"
| "js_String (JBool b) = (if b then ''true'' else ''false'')"
| "js_String (JNum n) = show_int n"
| "js_String (JStr s) = s"
| "js_String (JArr xs) =
     join '','' (map (\<lambda>x. if not_nullish x then js_String x else []) xs)"
| "js_String (JObj kvs) = ''[object Object]''"

section \<open>Scenario normalizer\<close>

text \<open>
  The own enumerable properties of a value, as object spread and \<open>Object.keys\<close> see
  them: an object's entries, an array's elements under their indices, a string's code
  units under their indices, and nothing for the other primitives.
\<close>

fun own_entries :: "jsval \<Rightarrow> jsobj" where
  "own_entries (JObj kvs) = kvs"
| "own_entries (JArr xs) = map (\<lambda>(i, x). (show_nat i, x)) (enumerate 0 xs)"
| "own_entries (JStr s) = map (\<lambda>(i, c). (show_nat i, JStr [c])) (enumerate 0 s)"
| "own_entries v = []"

text \<open>\<open>{...target, ...v}\<close>: the entries of \<open>v\<close> are defined on the target one by one.\<close>

definition spread_into :: "jsobj \<Rightarrow> jsval \<Rightarrow> jsobj" where
  "spread_into target v = foldl (\<lambda>obj (k, x). js_set obj k x) target (own_entries v)"

text \<open>
  The assignment \<open>obj[k] = v\<close> on an ordinary object: the name \<open>__proto__\<close> reaches the
  prototype setter and creates no own property.
\<close>

definition js_assign :: "jsobj \<Rightarrow> string \<Rightarrow> jsval \<Rightarrow> jsobj" where
  "js_assign obj k v = (if k = ''__proto__'' then obj else js_set obj k v)"

definition getCompanyInitial :: "unicode_tables \<Rightarrow> jsval \<Rightarrow> string" where
  "getCompanyInitial tbl companyName =
     (case trim tbl (js_String (js_or companyName (JStr []))) of
        [] \<Rightarrow> []
      | c # rest \<Rightarrow> toUpperCase tbl [c])"

definition mapMessageTypeToRole :: "unicode_tables \<Rightarrow> string \<Rightarrow> string" where
  "mapMessageTypeToRole tbl messageType =
     (let type = toLowerCase (trim tbl messageType) in
      if type = ''subscriber'' \<or> type = ''customer'' \<or> type = ''user'' then ''customer''
      else if type = ''agent'' then ''agent''
      else if type = ''system'' \<or> type = ''template'' \<or> type = ''escalation'' then ''system''
      else [])"

definition normalizeMediaItem :: "unicode_tables \<Rightarrow> jsval \<Rightarrow> jsval option" where
  "normalizeMediaItem tbl item =
     (case item of
        JStr s \<Rightarrow>
          (let url = trim tbl s in
           if url \<noteq> [] then Some (JObj [(''url'', JStr url), (''type'', JStr [])]) else None)
      | _ \<Rightarrow>
          if \<not> is_object item then None
          else
            (let rawUrl = js_or (js_or (js_or (js_or (js_get item ''url'') (js_get item ''media_url''))
                                          (js_get item ''src'')) (js_get item ''link'')) (JStr []);
                 url = trim tbl (js_String (js_or rawUrl (JStr [])))
             in if url = [] then None
                else
                  (let type = toLowerCase (trim tbl (js_String
                                (js_or (js_or (js_or (js_or (js_or (js_get item ''type'')
                                   (js_get item ''media_type'')) (js_get item ''mime_type''))
                                   (js_get item ''mimeType'')) (js_get item ''content_type''))
                                   (JStr []))))
                   in Some (JObj [(''url'', JStr url), (''type'', JStr type)]))))"

definition normalizeMessageMedia :: "unicode_tables \<Rightarrow> jsval \<Rightarrow> jsval list" where
  "normalizeMessageMedia tbl media =
     (case media of JArr items \<Rightarrow> List.map_filter (normalizeMediaItem tbl) items | _ \<Rightarrow> [])"

text \<open>The strings that \<open>normalizeConversationMessage\<close> derives from a raw message.\<close>

definition message_type_of :: "unicode_tables \<Rightarrow> jsval \<Rightarrow> string" where
  "message_type_of tbl message =
     toLowerCase (trim tbl (js_String
        (js_or (js_or (js_get message ''message_type'') (js_get message ''messageType'')) (JStr []))))"

definition explicit_role_of :: "unicode_tables \<Rightarrow> jsval \<Rightarrow> string" where
  "explicit_role_of tbl message =
     toLowerCase (trim tbl (js_String (js_or (js_get message ''role'') (JStr []))))"

definition content_of :: "jsval \<Rightarrow> string" where
  "content_of message =
     (let contentRaw = (if not_nullish (js_get message ''content'') then js_get message ''content''
                        else js_get message ''message_text'')
      in case contentRaw of
           JStr s \<Rightarrow> s
         | _ \<Rightarrow> if not_nullish contentRaw then js_String contentRaw else [])"

definition date_time_of :: "unicode_tables \<Rightarrow> jsval \<Rightarrow> string" where
  "date_time_of tbl message =
     (let dateTimeRaw =
            (if not_nullish (js_get message ''dateTime'') then js_get message ''dateTime''
             else if not_nullish (js_get message ''date_time'') then js_get message ''date_time''
             else js_get message ''timestamp'')
      in case dateTimeRaw of
           JStr s \<Rightarrow> trim tbl s
         | _ \<Rightarrow> if not_nullish dateTimeRaw then trim tbl (js_String dateTimeRaw) else [])"

definition message_id_of :: "unicode_tables \<Rightarrow> jsval \<Rightarrow> string" where
  "message_id_of tbl message =
     trim tbl (js_String (js_or (js_or (js_get message ''id'') (js_get message ''message_id'')) (JStr [])))"

text \<open>
  \<open>normalizeConversationMessage\<close>: \<open>None\<close> is the source's \<open>null\<close>. The result object is
  built by defining \<open>role\<close>, \<open>content\<close> and then each optional property, in that order.
\<close>

definition normalizeConversationMessage :: "unicode_tables \<Rightarrow> jsval \<Rightarrow> jsval option" where
  "normalizeConversationMessage tbl message =
     (if \<not> is_object message then None
      else
        (let messageType = message_type_of tbl message;
             explicitRole = explicit_role_of tbl message;
             mappedRole = mapMessageTypeToRole tbl messageType;
             role = (if explicitRole \<noteq> [] then explicitRole else mappedRole)
         in if role = [] then None
            else
              (let content = content_of message;
                   isEventSystemMessage = (messageType = ''template'' \<or> messageType = ''escalation'')
               in if trim tbl content = [] \<and> \<not> isEventSystemMessage then None
                  else
                    (let media = normalizeMessageMedia tbl
                                   (js_or (js_get message ''media'') (js_get message ''message_media''));
                         dateTime = date_time_of tbl message;
                         id = message_id_of tbl message
                     in Some (JObj
                          ([(''role'', JStr role), (''content'', JStr content)]
                           @ (if messageType \<noteq> [] then [(''messageType'', JStr messageType)] else [])
                           @ (if media \<noteq> [] then [(''media'', JArr media)] else [])
                           @ (if dateTime \<noteq> [] then [(''dateTime'', JStr dateTime)] else [])
                           @ (if id \<noteq> [] then [(''id'', JStr id)] else [])))))))"

definition isConversationMessageObject :: "jsval \<Rightarrow> bool" where
  "isConversationMessageObject item =
     (is_object item \<and>
      (has_own item ''message_text'' \<or> has_own item ''message_type'' \<or>
       has_own item ''content'' \<or> has_own item ''role''))"

definition isMessageArray :: "jsval \<Rightarrow> bool" where
  "isMessageArray v =
     (case v of JArr xs \<Rightarrow> xs \<noteq> [] \<and> list_all isConversationMessageObject xs | _ \<Rightarrow> False)"

definition normalizeConversationList :: "unicode_tables \<Rightarrow> jsval \<Rightarrow> jsval list" where
  "normalizeConversationList tbl list =
     (case list of JArr xs \<Rightarrow> List.map_filter (normalizeConversationMessage tbl) xs | _ \<Rightarrow> [])"

text \<open>
  The legacy flat fields: \<open>/^SystemMessage\d+$/i\<close>, \<open>/^customerMessage\d*$/i\<close> and
  \<open>/^AgentMessage\d+$/i\<close>. \<open>legacy_key p least k\<close> holds when \<open>k\<close> is \<open>p\<close> in any letter
  case followed by at least \<open>least\<close> decimal digits and nothing else.
\<close>

definition is_digit :: "char \<Rightarrow> bool" where
  "is_digit c = (let n = (of_char c :: nat) in 48 \<le> n \<and> n \<le> 57)"

definition legacy_key :: "string \<Rightarrow> nat \<Rightarrow> string \<Rightarrow> bool" where
  "legacy_key p least k =
     (toLowerCase (take (length p) k) = p \<and> list_all is_digit (drop (length p) k)
      \<and> least \<le> length (drop (length p) k))"

definition legacy_message :: "string \<times> jsval \<Rightarrow> jsval option" where
  "legacy_message entry =
     (case snd entry of
        JStr s \<Rightarrow>
          if s = [] then None
          else if legacy_key ''systemmessage'' 1 (fst entry)
            then Some (JObj [(''role'', JStr ''system''), (''content'', JStr s)])
          else if legacy_key ''customermessage'' 0 (fst entry)
            then Some (JObj [(''role'', JStr ''customer''), (''content'', JStr s)])
          else if legacy_key ''agentmessage'' 1 (fst entry)
            then Some (JObj [(''role'', JStr ''agent''), (''content'', JStr s)])
          else None
      | _ \<Rightarrow> None)"

definition buildConversationFromScenario :: "unicode_tables \<Rightarrow> jsval \<Rightarrow> jsval list" where
  "buildConversationFromScenario tbl scenario =
     (if \<not> truthy scenario then []
      else if is_array scenario \<and> scenario \<noteq> JArr [] then normalizeConversationList tbl scenario
      else if is_array (js_get scenario ''conversation'') \<and> js_get scenario ''conversation'' \<noteq> JArr []
        then normalizeConversationList tbl (js_get scenario ''conversation'')
      else if is_array (js_get scenario ''messages'') \<and> js_get scenario ''messages'' \<noteq> JArr []
        then normalizeConversationList tbl (js_get scenario ''messages'')
      else normalizeConversationList tbl (JArr (List.map_filter legacy_message (own_entries scenario))))"

text \<open>
  \<open>normalizeScenarioRecord\<close>. \<open>scenarioObject_of\<close> is the first statement of the source
  function. \<open>mergedScenario_literal\<close> is its object literal: it spreads the defaults, then
  the scenario, then defines \<open>guidelines\<close>, \<open>notes\<close> and \<open>rightPanel\<close>. The later
  statements assign \<open>conversation\<close>, \<open>customerMessage\<close>, \<open>agentName\<close>, \<open>companyName\<close>
  and \<open>agentInitial\<close>.
\<close>

definition first_customer_content :: "jsval list \<Rightarrow> jsval option" where
  "first_customer_content conversation =
     (case filter (\<lambda>m. truthy m \<and> js_get m ''role'' = JStr ''customer'' \<and> truthy (js_get m ''content''))
             conversation of
        [] \<Rightarrow> None
      | m # rest \<Rightarrow> Some (js_get m ''content''))"

definition scenarioObject_of :: "jsval \<Rightarrow> jsval" where
  "scenarioObject_of rawScenario =
     (case rawScenario of
        JArr xs \<Rightarrow> JObj [(''conversation'', rawScenario)]
      | JObj kvs \<Rightarrow> rawScenario
      | _ \<Rightarrow> JObj [])"

definition mergedScenario_literal :: "jsval \<Rightarrow> jsval \<Rightarrow> jsobj" where
  "mergedScenario_literal defaults scenarioObject =
     (let scenarioNotes = js_or (js_or (js_get scenarioObject ''notes'')
                                       (js_get scenarioObject ''guidelines'')) (JObj []);
          defaultNotes = js_or (js_or (js_get defaults ''notes'') (js_get defaults ''guidelines''))
                               (JObj []);
          m1 = spread_into (spread_into [] defaults) scenarioObject;
          m2 = js_set m1 ''guidelines''
                 (JObj (spread_into (spread_into [] (js_or (js_get defaults ''guidelines'') (JObj [])))
                                    (js_or (js_get scenarioObject ''guidelines'') (JObj []))));
          m3 = js_set m2 ''notes'' (JObj (spread_into (spread_into [] defaultNotes) scenarioNotes))
      in js_set m3 ''rightPanel''
           (JObj (spread_into (spread_into [] (js_or (js_get defaults ''rightPanel'') (JObj [])))
                              (js_or (js_get scenarioObject ''rightPanel'') (JObj [])))))"

definition normalizeScenarioRecord :: "unicode_tables \<Rightarrow> jsval \<Rightarrow> jsval \<Rightarrow> string \<Rightarrow> jsobj" where
  "normalizeScenarioRecord tbl rawScenario defaults scenarioKey =
     (let scenarioObject = scenarioObject_of rawScenario;
          m4 = mergedScenario_literal defaults scenarioObject;
          preloadedConversation =
            (if is_array (js_get scenarioObject ''conversation'') then js_get scenarioObject ''conversation''
             else if is_array (js_get scenarioObject ''messages'') then js_get scenarioObject ''messages''
             else JArr []);
          m5 = (if preloadedConversation \<noteq> JArr [] then js_set m4 ''conversation'' preloadedConversation
                else m4);
          conversation = buildConversationFromScenario tbl (JObj m5);
          m6 = js_set m5 ''conversation'' (JArr conversation);
          m7 = (if \<not> truthy (js_get (JObj m6) ''customerMessage'')
                then (case first_customer_content conversation of
                        Some content \<Rightarrow> js_set m6 ''customerMessage'' content
                      | None \<Rightarrow> m6)
                else m6);
          m8 = (if \<not> truthy (js_get (JObj m7) ''agentName'') then js_set m7 ''agentName'' (JStr [])
                else m7);
          m9 = (if \<not> truthy (js_get (JObj m8) ''companyName'')
                then js_set m8 ''companyName'' (JStr (''Scenario '' @ scenarioKey))
                else m8)
      in js_set m9 ''agentInitial'' (JStr (getCompanyInitial tbl (js_get (JObj m9) ''companyName''))))"

text \<open>
  \<open>coerceScenariosPayloadToMap\<close>. \<open>is_plain_object\<close> is the source's test
  \<open>data && typeof data === 'object' && !Array.isArray(data)\<close>. The keys of
  \<open>data.scenarios\<close> and the values read back under them are its own entries.
\<close>

fun is_plain_object :: "jsval \<Rightarrow> bool" where
  "is_plain_object (JObj kvs) = True"
| "is_plain_object v = False"

definition addScenario :: "unicode_tables \<Rightarrow> jsval \<Rightarrow> jsobj \<Rightarrow> string \<Rightarrow> jsval \<Rightarrow> jsobj" where
  "addScenario tbl defaults scenarios key rawScenario =
     js_assign scenarios key (JObj (normalizeScenarioRecord tbl rawScenario defaults key))"

definition coerceScenariosPayloadToMap :: "unicode_tables \<Rightarrow> jsval \<Rightarrow> jsobj" where
  "coerceScenariosPayloadToMap tbl data =
     (let defaults = (if is_plain_object data then js_or (js_get data ''defaults'') (JObj [])
                      else JObj [])
      in if is_plain_object data \<and> truthy (js_get data ''scenarios'')
            \<and> \<not> is_array (js_get data ''scenarios'')
         then foldl (\<lambda>scenarios (scenarioKey, rawScenario).
                       addScenario tbl defaults scenarios scenarioKey rawScenario)
                [] (own_entries (js_get data ''scenarios''))
         else
           (let asArray = (if is_array data then data
                           else if is_plain_object data \<and> is_array (js_get data ''scenarios'')
                                then js_get data ''scenarios'' else JNull)
            in case asArray of
                 JArr items \<Rightarrow>
                   if isMessageArray asArray
                   then addScenario tbl defaults [] ''1'' (JObj [(''conversation'', asArray)])
                   else foldl (\<lambda>scenarios (index, item).
                                 addScenario tbl defaults scenarios (show_nat (index + 1)) item)
                          [] (enumerate 0 items)
               | _ \<Rightarrow> []))"

text \<open>The shape of every object that \<open>normalizeConversationMessage\<close> returns.\<close>

definition message_object :: "string \<Rightarrow> string \<Rightarrow> string \<Rightarrow> jsval list \<Rightarrow> string \<Rightarrow> string \<Rightarrow> jsval" where
  "message_object r c mt md dt i =
     JObj ([(''role'', JStr r), (''content'', JStr c)]
           @ (if mt \<noteq> [] then [(''messageType'', JStr mt)] else [])
           @ (if md \<noteq> [] then [(''media'', JArr md)] else [])
           @ (if dt \<noteq> [] then [(''dateTime'', JStr dt)] else [])
           @ (if i \<noteq> [] then [(''id'', JStr i)] else []))"

text \<open>
  The raw scenarios that a payload designates, each under its key, as the specification
  lists the accepted shapes: the entries of a \<open>scenarios\<close> object; the items of a
  \<open>scenarios\<close> array or of a bare array under their one-based positions; and a
  non-empty array of message-like objects as the conversation of a single scenario "1".
  A truthy \<open>scenarios\<close> that is neither is read through its own enumerable properties.
\<close>

definition array_scenarios :: "jsval list \<Rightarrow> (string \<times> jsval) list" where
  "array_scenarios items =
     (if items \<noteq> [] \<and> list_all isConversationMessageObject items
      then [(''1'', JObj [(''conversation'', JArr items)])]
      else map (\<lambda>(i, item). (show_nat (i + 1), item)) (enumerate 0 items))"

definition payload_scenarios :: "jsval \<Rightarrow> (string \<times> jsval) list" where
  "payload_scenarios data =
     (case data of
        JObj kvs \<Rightarrow>
          (case js_get data ''scenarios'' of
             JArr items \<Rightarrow> array_scenarios items
           | s \<Rightarrow> if truthy s then own_entries s else [])
      | JArr items \<Rightarrow> array_scenarios items
      | _ \<Rightarrow> [])"

text \<open>
  Every value of a scenario map is the record that \<open>normalizeScenarioRecord\<close> built,
  over the given defaults, from a raw scenario listed under the same key.
\<close>

definition records_of :: "unicode_tables \<Rightarrow> jsval \<Rightarrow> (string \<times> jsval) list \<Rightarrow> jsobj \<Rightarrow> bool" where
  "records_of tbl d entries scenarios =
     (\<forall>(k, v) \<in> set scenarios.
        \<exists>raw. (k, raw) \<in> set entries \<and> v = JObj (normalizeScenarioRecord tbl raw d k))"

text \<open>An object that lists each of its keys once, as every parsed object does.\<close>

definition keys_once :: "jsval \<Rightarrow> bool" where
  "keys_once v = (case v of JObj kvs \<Rightarrow> distinct (map fst kvs) | _ \<Rightarrow> True)"

text \<open>
  The statements of \<open>normalizeScenarioRecord\<close> after the object literal, grouped: the
  preloaded conversation, the customer message, and the names and the initial.
\<close>

definition withPreloadedConversation :: "jsval \<Rightarrow> jsobj \<Rightarrow> jsobj" where
  "withPreloadedConversation scenarioObject m4 =
     (let preloadedConversation =
            (if is_array (js_get scenarioObject ''conversation'') then js_get scenarioObject ''conversation''
             else if is_array (js_get scenarioObject ''messages'') then js_get scenarioObject ''messages''
             else JArr [])
      in if preloadedConversation \<noteq> JArr [] then js_set m4 ''conversation'' preloadedConversation
         else m4)"

definition withCustomerMessage :: "jsval list \<Rightarrow> jsobj \<Rightarrow> jsobj" where
  "withCustomerMessage conversation m6 =
     (if \<not> truthy (js_get (JObj m6) ''customerMessage'')
      then (case first_customer_content conversation of
              Some content \<Rightarrow> js_set m6 ''customerMessage'' content
            | None \<Rightarrow> m6)
      else m6)"

definition withNames :: "unicode_tables \<Rightarrow> string \<Rightarrow> jsobj \<Rightarrow> jsobj" where
  "withNames tbl key m7 =
     (let m8 = (if \<not> truthy (js_get (JObj m7) ''agentName'') then js_set m7 ''agentName'' (JStr [])
                else m7);
          m9 = (if \<not> truthy (js_get (JObj m8) ''companyName'')
                then js_set m8 ''companyName'' (JStr (''Scenario '' @ key))
                else m8)
      in js_set m9 ''agentInitial'' (JStr (getCompanyInitial tbl (js_get (JObj m9) ''companyName''))))"

text \<open>
  What every record built by \<open>normalizeScenarioRecord\<close> looks like, and the keys of a
  scenario map: no key twice, and never \<open>__proto__\<close>.
\<close>

definition normalized_record :: "unicode_tables \<Rightarrow> jsobj \<Rightarrow> bool" where
  "normalized_record tbl r =
     (distinct (map fst r)
      \<and> (\<exists>g. map_of r ''guidelines'' = Some (JObj g) \<and> distinct (map fst g))
      \<and> (\<exists>n. map_of r ''notes'' = Some (JObj n) \<and> distinct (map fst n))
      \<and> (\<exists>p. map_of r ''rightPanel'' = Some (JObj p) \<and> distinct (map fst p))
      \<and> (\<exists>c. map_of r ''conversation'' = Some (JArr c) \<and> normalizeConversationList tbl (JArr c) = c
             \<and> (\<not> truthy (js_get (JObj r) ''customerMessage'') \<longrightarrow> first_customer_content c = None))
      \<and> (\<not> truthy (js_get (JObj r) ''agentName'') \<longrightarrow> map_of r ''agentName'' = Some (JStr []))
      \<and> truthy (js_get (JObj r) ''companyName'')
      \<and> map_of r ''agentInitial'' = Some (JStr (getCompanyInitial tbl (js_get (JObj r) ''companyName''))))"


section \<open>Assignment context\<close>

text \<open>The query parameters of the page, as \<open>URLSearchParams.get\<close> returns them.\<close>

record url_params =
  q_aid :: "string option"
  q_token :: "string option"
  q_mode :: "string option"

record assignment_params =
  aid :: string
  token :: string
  mode :: string

definition str_or :: "string option \<Rightarrow> string \<Rightarrow> string" where
  "str_or v d = (case v of None \<Rightarrow> d | Some s \<Rightarrow> (if s = [] then d else s))"

definition getAssignmentParamsFromUrl :: "url_params \<Rightarrow> assignment_params" where
  "getAssignmentParamsFromUrl params =
     (let mode = toLowerCase (str_or (q_mode params) ''edit'')
      in \<lparr> aid = str_or (q_aid params) [],
           token = str_or (q_token params) [],
           mode = (if mode = ''view'' then ''view'' else ''edit'') \<rparr>)"

text \<open>
  \<open>findScenarioBySendId\<close>: the first entry of the scenario map whose trimmed \<open>id\<close>
  equals the trimmed send id.
\<close>

definition scenario_id_text :: "unicode_tables \<Rightarrow> jsval \<Rightarrow> string" where
  "scenario_id_text tbl scenario =
     trim tbl (js_String (js_or (if truthy scenario then js_get scenario ''id'' else scenario) (JStr [])))"

fun findScenarioBySendId_loop :: "unicode_tables \<Rightarrow> jsobj \<Rightarrow> string \<Rightarrow> (string \<times> jsval) option" where
  "findScenarioBySendId_loop tbl [] target = None"
| "findScenarioBySendId_loop tbl ((scenarioKey, scenario) # entries) target =
     (if scenario_id_text tbl scenario = target then Some (scenarioKey, scenario)
      else findScenarioBySendId_loop tbl entries target)"

definition findScenarioBySendId :: "unicode_tables \<Rightarrow> jsobj \<Rightarrow> jsval \<Rightarrow> (string \<times> jsval) option" where
  "findScenarioBySendId tbl scenarios sendId =
     findScenarioBySendId_loop tbl scenarios (trim tbl (js_String (js_or sendId (JStr []))))"

record assignment_context =
  assignment_id :: jsval
  send_id :: jsval
  role :: string
  ctx_mode :: string
  ctx_token :: string
  status :: jsval
  ctx_scenarioKey :: string
  form_state_json :: jsval
  internal_note :: jsval

text \<open>
  \<open>loadAssignmentContextFromUrl\<close>. The reply of the remote \<open>getAssignment\<close> call is an
  input: \<open>Inl\<close> when \<open>fetchAssignmentGet\<close> throws, \<open>Inr\<close> the parsed body otherwise.
  The result is \<open>Inr None\<close> when the page has no \<open>aid\<close>, and \<open>Inl\<close> for each \<open>throw\<close>.
\<close>

definition loadAssignmentContextFromUrl ::
  "unicode_tables \<Rightarrow> url_params \<Rightarrow> error + jsval \<Rightarrow> jsobj \<Rightarrow> error + assignment_context option" where
  "loadAssignmentContextFromUrl tbl url fetched scenarios =
     (let params = getAssignmentParamsFromUrl url in
      if aid params = [] then Inr None
      else if token params = [] then Inl (Error ''Missing assignment token in URL.'')
      else case fetched of
        Inl e \<Rightarrow> Inl e
      | Inr response \<Rightarrow>
          (let assignment =
                 (if truthy response \<and> truthy (js_get response ''assignment'')
                  then js_get response ''assignment'' else JNull)
           in if \<not> truthy assignment then Inl (Error ''Assignment payload is missing.'')
              else case findScenarioBySendId tbl scenarios (js_get assignment ''send_id'') of
                None \<Rightarrow>
                  Inl (Error (''Scenario for send_id '' @ js_String (js_get assignment ''send_id'')
                              @ '' was not found in loaded scenarios.''))
              | Some (key, scenario) \<Rightarrow>
                  Inr (Some \<lparr> assignment_id = js_get assignment ''assignment_id'',
                              send_id = js_get assignment ''send_id'',
                              role = (if js_get assignment ''role'' = JStr ''viewer''
                                      then ''viewer'' else ''editor''),
                              ctx_mode = mode params,
                              ctx_token = token params,
                              status = js_or (js_get assignment ''status'') (JStr []),
                              ctx_scenarioKey = key,
                              form_state_json = js_or (js_get assignment ''form_state_json'') (JStr []),
                              internal_note = js_or (js_get assignment ''internal_note'') (JStr []) \<rparr>)))"

section \<open>Evaluation form\<close>

text \<open>
  The label tables of the submit handler. \<open>CATEGORY_LABELS\<close> gives each category's
  labels in display order, \<open>VALUE_TO_LABEL\<close> maps the checkbox slugs to labels.
\<close>

definition CATEGORY_LABELS :: "(string \<times> string list) list" where
  "CATEGORY_LABELS =
   [(''issue_identification'', [''Intent Identified'', ''Necessary Reply'']),
    (''proper_resolution'',
       [''Efficient Troubleshooting'', ''Correct Escalation'', ''Double Text'', ''Partial Reply'']),
    (''product_sales'',
       [''General Recommendation'', ''Discount Upsell'', ''Restock Question'', ''Upsell'']),
    (''accuracy'',
       [''Credible Source'', ''Promo - Active'', ''Promo - Correct'', ''Promo - Hallucinated'',
        ''Link - Broken'', ''Link - Correct Page'', ''Link - Correct Region'',
        ''Link - Correct Website'', ''Link - Filtered'', ''Link - Relevant Item'']),
    (''workflow'',
       [''Checkout Page'', ''Company Profile'', ''Conversation'', ''Customer Profile'', ''Notes'',
        ''Product Information'', ''Promo Notes'', ''Templates'', ''Website'']),
    (''clarity'',
       [''Correct Grammar'', ''No Typos'', ''No Repetition'', ''Understandable Message'']),
    (''tone'', [''Preferred tone followed'', ''Personalized'', ''Empathetic''])]"

definition VALUE_TO_LABEL :: "(string \<times> (string \<times> string) list) list" where
  "VALUE_TO_LABEL =
   [(''issue_identification'',
       [(''intent_identified'', ''Intent Identified''), (''necessary_reply'', ''Necessary Reply'')]),
    (''proper_resolution'',
       [(''efficient_troubleshooting'', ''Efficient Troubleshooting''),
        (''correct_escalation'', ''Correct Escalation''),
        (''double_text'', ''Double Text''), (''partial_reply'', ''Partial Reply'')]),
    (''product_sales'',
       [(''general_recommendation'', ''General Recommendation''),
        (''discount_upsell'', ''Discount Upsell''),
        (''restock_question'', ''Restock Question''), (''upsell'', ''Upsell'')]),
    (''accuracy'',
       [(''credible_source'', ''Credible Source''), (''promo_active'', ''Promo - Active''),
        (''promo_correct'', ''Promo - Correct''), (''promo_hallucinated'', ''Promo - Hallucinated''),
        (''link_broken'', ''Link - Broken''), (''link_correct_page'', ''Link - Correct Page''),
        (''link_correct_region'', ''Link - Correct Region''),
        (''link_correct_website'', ''Link - Correct Website''),
        (''link_filtered'', ''Link - Filtered''), (''link_relevant_item'', ''Link - Relevant Item'')]),
    (''workflow'',
       [(''checkout_page'', ''Checkout Page''), (''company_profile'', ''Company Profile''),
        (''conversation'', ''Conversation''), (''customer_profile'', ''Customer Profile''),
        (''notes'', ''Notes''), (''product_information'', ''Product Information''),
        (''promo_notes'', ''Promo Notes''), (''templates'', ''Templates''), (''website'', ''Website'')]),
    (''clarity'',
       [(''correct_grammar'', ''Correct Grammar''), (''no_typos'', ''No Typos''),
        (''no_repetition'', ''No Repetition''),
        (''understandable_message'', ''Understandable Message'')]),
    (''tone'',
       [(''preferred_tone_followed'', ''Preferred tone followed''),
        (''personalized'', ''Personalized''), (''empathetic'', ''Empathetic'')])]"

definition checkboxCategories :: "string list" where
  "checkboxCategories =
     [''issue_identification'', ''proper_resolution'', ''product_sales'', ''accuracy'',
      ''workflow'', ''clarity'', ''tone'']"

text \<open>
  A \<open>FormData\<close> is its list of (name, value) entries in document order; \<open>getAll\<close> gives
  the values of one name, \<open>get\<close> the first of them.
\<close>

type_synonym form_data = "(string \<times> string) list"

definition getAll :: "form_data \<Rightarrow> string \<Rightarrow> string list" where
  "getAll formData name = map snd (filter (\<lambda>e. fst e = name) formData)"

definition selectedByCategory :: "form_data \<Rightarrow> string \<Rightarrow> string list" where
  "selectedByCategory formData category =
     (if category \<in> set checkboxCategories then getAll formData category else [])"

text \<open>
  \<open>buildCategoryCell\<close>: the selected slugs are mapped to labels (a slug without a label
  is dropped by \<open>filter(Boolean)\<close>; a slug that names an inherited property maps to no
  label and can match none), collected in a \<open>Set\<close>, and the category's full label list
  is filtered by membership in that set and joined with commas.
\<close>

definition buildCategoryCell :: "(string \<Rightarrow> string list) \<Rightarrow> string \<Rightarrow> string" where
  "buildCategoryCell selected_slugs categoryKey =
     (let full = (case map_of CATEGORY_LABELS categoryKey of Some labels \<Rightarrow> labels | None \<Rightarrow> []);
          valueMap = (case map_of VALUE_TO_LABEL categoryKey of Some m \<Rightarrow> m | None \<Rightarrow> []);
          selected = filter (\<lambda>label. label \<noteq> [])
                       (List.map_filter (map_of valueMap) (selected_slugs categoryKey));
          included = filter (\<lambda>label. label \<in> set selected) full
      in join '','' included)"

subsection \<open>The submit handler\<close>

text \<open>
  The handler's inputs besides the assignment context: the form's entries, the selected
  zero-tolerance label, the stored agent identity, the clock readings, and what the
  remote end answers. \<open>evaluation_reply\<close> is \<open>None\<close> when the \<open>fetch\<close> rejects, and
  otherwise the \<open>ok\<close> flag, the parsed JSON body (\<open>None\<close> when the body is not JSON) and
  the text that the fallback read gives. \<open>done_reply\<close> is what \<open>fetchAssignmentPost\<close>
  returns or throws for action \<open>done\<close>.
\<close>

record submit_env =
  form_entries :: form_data
  zeroToleranceLabel :: string
  stored_agentName :: "string option"
  stored_agentEmail :: "string option"
  auditTime :: string
  timestamp :: string
  evaluation_reply :: "(bool \<times> jsval option \<times> string) option"
  draft_form_state :: string
  internal_notes_value :: string
  done_reply :: "error + jsval"
  app_base :: string
  assignment_select_present :: bool

datatype request =
    PostEvaluation jsobj
  | PostSaveDraft jsobj
  | PostDone jsobj

record submit_outcome =
  requests :: "request list"
  formStatus :: string
  location_href :: "string option"
  form_reset :: bool

definition evaluation_payload :: "assignment_context option \<Rightarrow> submit_env \<Rightarrow> jsobj" where
  "evaluation_payload ctx env =
     (let cell = buildCategoryCell (selectedByCategory (form_entries env));
          agentUsername = str_or (stored_agentName env) ''Unknown Agent'';
          agentEmail = str_or (stored_agentEmail env) [];
          emailAddress = (if agentEmail \<noteq> [] then agentEmail else agentUsername)
      in [(''eventType'', JStr ''evaluationFormSubmission''),
          (''timestamp'', JStr (timestamp env)),
          (''emailAddress'', JStr emailAddress),
          (''messageId'', (case ctx of None \<Rightarrow> JStr [] | Some c \<Rightarrow> js_or (send_id c) (JStr []))),
          (''auditTime'', JStr (auditTime env)),
          (''issueIdentification'', JStr (cell ''issue_identification'')),
          (''properResolution'', JStr (cell ''proper_resolution'')),
          (''productSales'', JStr (cell ''product_sales'')),
          (''accuracy'', JStr (cell ''accuracy'')),
          (''workflow'', JStr (cell ''workflow'')),
          (''clarity'', JStr (cell ''clarity'')),
          (''tone'', JStr (cell ''tone'')),
          (''zeroTolerance'', JStr (zeroToleranceLabel env)),
          (''notes'', JStr (str_or (map_of (form_entries env) ''notes'') []))])"

text \<open>
  \<open>saveAssignmentDraft\<close>, as far as the network goes: one \<open>saveDraft\<close> request for an
  editor context with an assignment id and a token, nothing otherwise.
\<close>

definition saveAssignmentDraft :: "assignment_context option \<Rightarrow> submit_env \<Rightarrow> request list" where
  "saveAssignmentDraft ctx env =
     (case ctx of
        None \<Rightarrow> []
      | Some c \<Rightarrow>
          if role c \<noteq> ''editor'' then []
          else if \<not> truthy (assignment_id c) \<or> ctx_token c = [] then []
          else [PostSaveDraft
                  [(''assignment_id'', assignment_id c), (''token'', JStr (ctx_token c)),
                   (''form_state_json'', JStr (draft_form_state env)),
                   (''internal_note'', JStr (internal_notes_value env))]])"

text \<open>
  The part of the handler after a successful evaluation post, for an editor context:
  the draft is saved (its failure is swallowed), the assignment is marked done, and the
  page moves to the first item of the returned queue when that has an edit URL.
  \<open>Inl\<close> is an exception that reaches the handler's \<open>catch\<close>: a failed \<open>done\<close> call, a
  \<open>null\<close> reply, a \<open>null\<close> queue item met by \<open>renderAssignmentQueue\<close> while it fills the
  assignment select, or a \<open>null\<close> first item. The second component is the list of
  requests issued up to then.
\<close>

definition complete_assignment ::
  "assignment_context \<Rightarrow> submit_env \<Rightarrow> (error + string option) \<times> request list" where
  "complete_assignment c env =
     (let reqs = saveAssignmentDraft (Some c) env @
                 [PostDone [(''assignment_id'', assignment_id c), (''token'', JStr (ctx_token c)),
                            (''app_base'', JStr (app_base env))]]
      in case done_reply env of
           Inl e \<Rightarrow> (Inl e, reqs)
         | Inr doneRes \<Rightarrow>
             (case js_get_checked doneRes ''assignments'' of
                Inl e \<Rightarrow> (Inl e, reqs)
              | Inr assignments \<Rightarrow>
                  (let nextQueue = (case assignments of JArr xs \<Rightarrow> xs | _ \<Rightarrow> [])
                   in if assignment_select_present env \<and> list_ex (\<lambda>a. \<not> not_nullish a) nextQueue
                      then (Inl TypeError, reqs)
                      else case nextQueue of
                             [] \<Rightarrow> (Inr None, reqs)
                           | first # _ \<Rightarrow>
                               if \<not> not_nullish first then (Inl TypeError, reqs)
                               else if truthy (js_get first ''edit_url'')
                               then (Inr (Some (js_String (js_get first ''edit_url''))), reqs)
                               else (Inr None, reqs))))"

text \<open>
  The submit handler of the evaluation form. The order of the source is kept: the
  view-only gate, then the notes validation, then the evaluation post and what follows
  it. Local storage, the timer and the button state are left out.
\<close>

definition submit_handler :: "unicode_tables \<Rightarrow> assignment_context option \<Rightarrow> submit_env \<Rightarrow> submit_outcome" where
  "submit_handler tbl ctx env =
     (if (case ctx of None \<Rightarrow> False
          | Some c \<Rightarrow> role c \<noteq> ''editor'' \<or> ctx_mode c = ''view'')
      then \<lparr> requests = [], formStatus = ''View-only link cannot submit.'',
             location_href = None, form_reset = False \<rparr>
      else if trim tbl (str_or (map_of (form_entries env) ''notes'') []) = []
      then \<lparr> requests = [], formStatus = ''Notes field is required.'',
             location_href = None, form_reset = False \<rparr>
      else
        (let post = PostEvaluation (evaluation_payload ctx env) in
         case evaluation_reply env of
           None \<Rightarrow> \<lparr> requests = [post], formStatus = ''Submission failed. Please try again.'',
                      location_href = None, form_reset = False \<rparr>
         | Some (ok, body, text) \<Rightarrow>
             (let success = (case body of
                               Some json \<Rightarrow> ok \<and> truthy json \<and> js_get json ''status'' = JStr ''success''
                             | None \<Rightarrow> ok);
                  serverMsg = (case body of
                                 Some json \<Rightarrow>
                                   (if truthy json \<and> truthy (js_get json ''message'')
                                    then js_get json ''message'' else JStr [])
                               | None \<Rightarrow> JStr text)
              in if \<not> success
                 then \<lparr> requests = [post],
                        formStatus = ''Submission failed. '' @
                          (if truthy serverMsg then ''Details: '' @ js_String serverMsg
                           else ''Please try again.''),
                        location_href = None, form_reset = False \<rparr>
                 else
                   (case (case ctx of Some c \<Rightarrow> if role c = ''editor'' then Some c else None
                          | None \<Rightarrow> None) of
                      None \<Rightarrow> \<lparr> requests = [post], formStatus = ''Submitted successfully.'',
                                 location_href = None, form_reset = True \<rparr>
                    | Some c \<Rightarrow>
                        (case complete_assignment c env of
                           (Inl e, reqs) \<Rightarrow>
                             \<lparr> requests = post # reqs,
                               formStatus = ''Submission failed. Please try again.'',
                               location_href = None, form_reset = False \<rparr>
                         | (Inr (Some url), reqs) \<Rightarrow>
                             \<lparr> requests = post # reqs, formStatus = ''Submitting...'',
                               location_href = Some url, form_reset = False \<rparr>
                         | (Inr None, reqs) \<Rightarrow>
                             \<lparr> requests = post # reqs, formStatus = ''Submitted successfully.'',
                               location_href = None, form_reset = True \<rparr>)))))"

section \<open>Conversation navigation\<close>































section \<open>Label lists\<close>

text \<open>
  \<open>normalizeScenarioLabelList\<close> of the console. \<open>strip_quotes\<close> is the replacement
  \<open>/^['"]|['"]$/g\<close>: one leading and one trailing quote character are removed.
  \<open>split_runs\<close> is \<open>split(/[\n,|;]+/)\<close>: the text is cut at every maximal run of
  separators.
\<close>

definition is_quote :: "char \<Rightarrow> bool" where
  "is_quote c = (c = CHR 0x27 \<or> c = CHR 0x22)"

definition strip_quotes :: "string \<Rightarrow> string" where
  "strip_quotes s =
     (let s1 = (case s of [] \<Rightarrow> [] | c # rest \<Rightarrow> if is_quote c then rest else s)
      in if s1 \<noteq> [] \<and> is_quote (last s1) then butlast s1 else s1)"

definition is_list_separator :: "char \<Rightarrow> bool" where
  "is_list_separator c = (c = CHR 0x0A \<or> c = CHR '','' \<or> c = CHR ''|'' \<or> c = CHR '';'')"

function split_runs :: "(char \<Rightarrow> bool) \<Rightarrow> string \<Rightarrow> string \<Rightarrow> string list" where
  "split_runs sep cur [] = [rev cur]"
| "split_runs sep cur (c # cs) =
     (if sep c then rev cur # split_runs sep [] (dropWhile sep cs)
      else split_runs sep (c # cur) cs)"
  by pat_completeness auto
termination
  by (relation "measure (\<lambda>(sep, cur, s). length s)")
     (auto simp: le_imp_less_Suc length_dropWhile_le)

definition label_texts :: "unicode_tables \<Rightarrow> jsval list \<Rightarrow> string list" where
  "label_texts tbl items =
     filter (\<lambda>item. item \<noteq> [])
       (map strip_quotes
          (filter (\<lambda>item. item \<noteq> [] \<and> item \<noteq> ''[object Object]'')
             (map (\<lambda>item. trim tbl (js_String (js_or item (JStr [])))) items)))"

definition normalizeScenarioLabelList :: "unicode_tables \<Rightarrow> jsval \<Rightarrow> string list" where
  "normalizeScenarioLabelList tbl v =
     (case v of
        JArr items \<Rightarrow> label_texts tbl items
      | JObj kvs \<Rightarrow> label_texts tbl (map snd kvs)
      | JNull \<Rightarrow> []
      | JUndefined \<Rightarrow> []
      | _ \<Rightarrow>
          (let text = trim tbl (js_String v) in
           if text = [] then []
           else filter (\<lambda>item. item \<noteq> [])
                  (map (\<lambda>item. strip_quotes (trim tbl item)) (split_runs is_list_separator [] text))))"

subsection \<open>The offline editor\<close>

text \<open>
  \<open>Convert-ToStringArray\<close> and \<open>Get-UniqueTrimmedStringArray\<close> of the desktop editor
  (PowerShell). A value is \<open>$null\<close>, an array, a dictionary, an object with properties,
  or a single value; a leaf is \<open>None\<close> for \<open>$null\<close> and otherwise the text that
  \<open>[string]\<close> gives for it. The string operations of the runtime are parameters of the
  model: the Unicode compatibility normalization (form KC) that \<open>Get-StringValue\<close>
  applies, the white space outside ASCII that \<open>Trim()\<close> strips, \<open>ToLowerInvariant\<close>, the
  comparison behind \<open>-eq\<close> and \<open>-ne\<close> on strings, and the comparison of keys in a hash
  table made by a hash literal, which ignores letter case.
\<close>

record dotnet_strings =
  FormKC :: "string \<Rightarrow> string"
  IsWhiteSpace :: "char \<Rightarrow> bool"
  ToLowerInvariant :: "string \<Rightarrow> string"
  ps_eq :: "string \<Rightarrow> string \<Rightarrow> bool"
  key_equals :: "string \<Rightarrow> string \<Rightarrow> bool"

datatype ps_value =
    PsNull
  | PsArray "string option list"
  | PsDictionary "(string \<times> string option) list"
  | PsObject "(string \<times> string option) list"
  | PsScalar string

definition Get_StringValue :: "dotnet_strings \<Rightarrow> string option \<Rightarrow> string" where
  "Get_StringValue net v = (case v of None \<Rightarrow> [] | Some text \<Rightarrow> FormKC net text)"

definition Trim :: "dotnet_strings \<Rightarrow> string \<Rightarrow> string" where
  "Trim net s = strip (\<lambda>c. if is_ascii c then ascii_space c else IsWhiteSpace net c) s"

text \<open>The test \<open>$txt -and $txt -ne "{}" -and $txt -ne "[]"\<close>.\<close>

definition ps_keep :: "dotnet_strings \<Rightarrow> string \<Rightarrow> bool" where
  "ps_keep net txt = (txt \<noteq> [] \<and> \<not> ps_eq net txt ''{}'' \<and> \<not> ps_eq net txt ''[]'')"

definition Convert_ToStringArray :: "dotnet_strings \<Rightarrow> ps_value \<Rightarrow> string list" where
  "Convert_ToStringArray net v =
     (case v of
        PsNull \<Rightarrow> []
      | PsArray items \<Rightarrow>
          filter (ps_keep net) (map (\<lambda>item. Trim net (Get_StringValue net item)) items)
      | PsDictionary entries \<Rightarrow>
          filter (ps_keep net) (map (\<lambda>entry. Trim net (Get_StringValue net (snd entry))) entries)
      | PsObject props \<Rightarrow>
          filter (ps_keep net) (map (\<lambda>p. Trim net (Get_StringValue net (snd p))) props)
      | PsScalar text \<Rightarrow> filter (ps_keep net) [Trim net (Get_StringValue net (Some text))])"

text \<open>
  The loop of \<open>Get-UniqueTrimmedStringArray\<close>. \<open>seen\<close> holds the keys of the hash table
  in the order they were added; \<open>ContainsKey\<close> asks the table's comparison whether one of
  them equals the given key.
\<close>

definition ContainsKey :: "dotnet_strings \<Rightarrow> string list \<Rightarrow> string \<Rightarrow> bool" where
  "ContainsKey net seen key = list_ex (\<lambda>k. key_equals net k key) seen"

fun unique_loop :: "dotnet_strings \<Rightarrow> string list \<Rightarrow> string list \<Rightarrow> string list \<Rightarrow> string list" where
  "unique_loop net seen result [] = result"
| "unique_loop net seen result (item # rest) =
     (let txt = Trim net (Get_StringValue net (Some item)) in
      if txt = [] then unique_loop net seen result rest
      else
        (let key = ToLowerInvariant net txt in
         if ContainsKey net seen key then unique_loop net seen result rest
         else unique_loop net (seen @ [key]) (result @ [txt]) rest))"

definition Get_UniqueTrimmedStringArray :: "dotnet_strings \<Rightarrow> ps_value \<Rightarrow> string list" where
  "Get_UniqueTrimmedStringArray net v = unique_loop net [] [] (Convert_ToStringArray net v)"

text \<open>
  The leaves of a value in the order the editor visits them, and the texts that reach the
  hash table: every leaf normalized and trimmed, the ones that are empty or compare equal
  to \<open>{}\<close> or \<open>[]\<close> dropped, the rest normalized and trimmed once more and the empty
  ones dropped.
\<close>

definition ps_leaves :: "ps_value \<Rightarrow> string option list" where
  "ps_leaves v =
     (case v of
        PsNull \<Rightarrow> []
      | PsArray items \<Rightarrow> items
      | PsDictionary entries \<Rightarrow> map snd entries
      | PsObject props \<Rightarrow> map snd props
      | PsScalar text \<Rightarrow> [Some text])"

definition candidate_texts :: "dotnet_strings \<Rightarrow> ps_value \<Rightarrow> string list" where
  "candidate_texts net v =
     filter (\<lambda>t. t \<noteq> [])
       (map (\<lambda>t. Trim net (FormKC net t))
          (filter (\<lambda>t. t \<noteq> [] \<and> \<not> ps_eq net t ''{}'' \<and> \<not> ps_eq net t ''[]'')
             (map (\<lambda>leaf. Trim net (case leaf of None \<Rightarrow> [] | Some text \<Rightarrow> FormKC net text))
                (ps_leaves v))))"

text \<open>
  Keeping, in order, each entry whose lower-cased key the table does not hold yet: the
  specification's reading of "deduplicated, case-insensitive key, order-preserving",
  with the table's comparison deciding which keys are the same.
\<close>

fun keep_first_by_key :: "dotnet_strings \<Rightarrow> string list \<Rightarrow> string list \<Rightarrow> string list" where
  "keep_first_by_key net seen [] = []"
| "keep_first_by_key net seen (x # xs) =
     (if list_ex (\<lambda>k. key_equals net k (ToLowerInvariant net x)) seen
      then keep_first_by_key net seen xs
      else x # keep_first_by_key net (seen @ [ToLowerInvariant net x]) xs)"

text \<open>
  Runtime tables for the examples: no change under normalization, U+0085 and U+00A0 as
  white space, lower-casing of the capitals A to Z and U+00C0 to U+00DE, and both
  comparisons ignoring the case of those letters.
\<close>

definition example_dotnet :: dotnet_strings where
  "example_dotnet =
     \<lparr> FormKC = (\<lambda>s. s),
       IsWhiteSpace = (\<lambda>c. (of_char c :: nat) = 133 \<or> (of_char c :: nat) = 160),
       ToLowerInvariant = toLowerCase,
       ps_eq = (\<lambda>a b. toLowerCase a = toLowerCase b),
       key_equals = (\<lambda>a b. toLowerCase a = toLowerCase b) \<rparr>"

section \<open>Properties\<close>

subsection \<open>Trimming, lower case and the shape of normalized messages\<close>

text \<open>
  Trimming and lower-casing are idempotent and commute, so every string that message
  normalization stores is read back unchanged by the coercion that produced it; a
  normalized message and a normalized media item are therefore fixed points.
\<close>

lemma lower_char_small: "is_capital c \<Longrightarrow> is_small (lower_char c) \<and> \<not> is_ascii c = (\<not> is_ascii (lower_char c))"
  by (auto simp: lower_char_def is_capital_def is_small_def is_ascii_def Let_def)

lemma small_not_capital: "is_small c \<Longrightarrow> \<not> is_capital c"
  by (auto simp: is_capital_def is_small_def Let_def)

lemma lower_char_idem: "lower_char (lower_char c) = lower_char c"
  using lower_char_small[of c] small_not_capital[of "lower_char c"]
  by (cases "is_capital c") (simp_all add: lower_char_def)

lemma toLowerCase_idem: "toLowerCase (toLowerCase s) = toLowerCase s"
  by (simp add: toLowerCase_def lower_char_idem)

lemma is_space_lower_char: "is_space tbl (lower_char c) = is_space tbl c"
proof (cases "is_capital c")
  case True
  have "\<not> ascii_space c" "\<not> ascii_space (lower_char c)"
    using True
    by (auto simp: lower_char_def is_capital_def ascii_space_def Let_def)
  with True lower_char_small[OF True] show ?thesis
    by (auto simp: is_space_def)
next
  case False
  then show ?thesis by (simp add: lower_char_def)
qed

lemma trim_toLowerCase: "trim tbl (toLowerCase s) = toLowerCase (trim tbl s)"
  by (simp add: trim_def strip_def toLowerCase_def dropWhile_map rev_map comp_def is_space_lower_char)

lemma dropWhile_strip_end:
  assumes "t = [] \<or> \<not> P (hd t)"
  shows "dropWhile P (rev (dropWhile P (rev t))) = rev (dropWhile P (rev t))"
proof (cases "rev (dropWhile P (rev t))")
  case Nil
  show ?thesis unfolding Nil by simp
next
  case (Cons a r)
  have "\<exists>w. t = rev (dropWhile P (rev t)) @ w"
    by (metis rev_append rev_rev_ident takeWhile_dropWhile_id)
  then obtain w where w: "t = (a # r) @ w" unfolding Cons by blast
  have "\<not> P a" using assms unfolding w by simp
  show ?thesis unfolding Cons using \<open>\<not> P a\<close> by simp
qed

lemma strip_idem: "strip P (strip P s) = strip P s"
proof -
  have "dropWhile P s = [] \<or> \<not> P (hd (dropWhile P s))"
    using hd_dropWhile[of P s] by blast
  from dropWhile_strip_end[of "dropWhile P s" P, OF this] show ?thesis
    by (simp add: strip_def)
qed

lemma trim_idem: "trim tbl (trim tbl s) = trim tbl s"
  by (simp add: trim_def strip_idem)

lemma norm_text_idem: "toLowerCase (trim tbl (toLowerCase (trim tbl s))) = toLowerCase (trim tbl s)"
  by (simp add: trim_toLowerCase trim_idem toLowerCase_idem)

lemma trim_Nil: "trim tbl [] = []" by (simp add: trim_def strip_def)


lemma toLowerCase_Nil: "toLowerCase [] = []" by (simp add: toLowerCase_def)

lemma map_filter_fixed:
  assumes "\<And>x y. f x = Some y \<Longrightarrow> f y = Some y"
  shows "List.map_filter f (List.map_filter f xs) = List.map_filter f xs"
  by (induction xs) (auto simp: map_filter_simps assms split: option.splits)

lemma media_item_shape:
  assumes "normalizeMediaItem tbl item = Some item'"
  shows "\<exists>u t. item' = JObj [(''url'', JStr u), (''type'', JStr t)] \<and> u \<noteq> [] \<and> trim tbl u = u
            \<and> toLowerCase (trim tbl t) = t"
  using assms
  by (auto simp: normalizeMediaItem_def Let_def trim_idem norm_text_idem trim_Nil toLowerCase_Nil
           split: jsval.splits if_splits)

lemma normalizeMediaItem_fixed:
  assumes "normalizeMediaItem tbl item = Some item'"
  shows "normalizeMediaItem tbl item' = Some item'"
proof -
  from media_item_shape[OF assms] obtain u t where
    s: "item' = JObj [(''url'', JStr u), (''type'', JStr t)]" and u: "u \<noteq> []" "trim tbl u = u"
    and t: "toLowerCase (trim tbl t) = t" by blast
  have t0: "toLowerCase (trim tbl []) = []" by (simp add: trim_Nil toLowerCase_Nil)
  show ?thesis unfolding s using u t t0
    by (simp add: normalizeMediaItem_def js_or_def Let_def)
qed

lemma normalizeMessageMedia_fixed:
  "normalizeMessageMedia tbl (JArr (normalizeMessageMedia tbl media)) = normalizeMessageMedia tbl media"
  by (cases media) (simp_all add: normalizeMessageMedia_def map_filter_fixed normalizeMediaItem_fixed map_filter_simps)


lemma role_literals_fixed:
  "toLowerCase (trim tbl ''customer'') = ''customer''"
  "toLowerCase (trim tbl ''agent'') = ''agent''"
  "toLowerCase (trim tbl ''system'') = ''system''"
  by code_simp+

lemma mapMessageTypeToRole_fixed:
  "toLowerCase (trim tbl (mapMessageTypeToRole tbl t)) = mapMessageTypeToRole tbl t"
  by (simp add: mapMessageTypeToRole_def Let_def role_literals_fixed trim_Nil toLowerCase_Nil)

lemma message_type_of_fixed: "toLowerCase (trim tbl (message_type_of tbl m)) = message_type_of tbl m"
  by (simp add: message_type_of_def norm_text_idem)

lemma explicit_role_of_fixed: "toLowerCase (trim tbl (explicit_role_of tbl m)) = explicit_role_of tbl m"
  by (simp add: explicit_role_of_def norm_text_idem)

lemma date_time_of_fixed: "trim tbl (date_time_of tbl m) = date_time_of tbl m"
  by (simp add: date_time_of_def Let_def trim_idem trim_Nil split: jsval.splits)

lemma message_id_of_fixed: "trim tbl (message_id_of tbl m) = message_id_of tbl m"
  by (simp add: message_id_of_def trim_idem)

lemma message_shape:
  assumes "normalizeConversationMessage tbl m = Some m'"
  shows "\<exists>r c mt md dt i. m' = message_object r c mt md dt i
           \<and> r \<noteq> [] \<and> toLowerCase (trim tbl r) = r \<and> toLowerCase (trim tbl mt) = mt
           \<and> (trim tbl c \<noteq> [] \<or> mt = ''template'' \<or> mt = ''escalation'')
           \<and> normalizeMessageMedia tbl (JArr md) = md \<and> trim tbl dt = dt \<and> trim tbl i = i"
proof -
  let ?r = "if explicit_role_of tbl m \<noteq> [] then explicit_role_of tbl m
            else mapMessageTypeToRole tbl (message_type_of tbl m)"
  let ?md = "normalizeMessageMedia tbl (js_or (js_get m ''media'') (js_get m ''message_media''))"
  from assms have m': "m' = message_object ?r (content_of m) (message_type_of tbl m) ?md
                              (date_time_of tbl m) (message_id_of tbl m)"
    and r: "?r \<noteq> []"
    and c: "trim tbl (content_of m) \<noteq> [] \<or> message_type_of tbl m = ''template'' \<or> message_type_of tbl m = ''escalation''"
    by (auto simp: normalizeConversationMessage_def message_object_def Let_def split: if_splits)
  have "toLowerCase (trim tbl ?r) = ?r"
    by (simp add: explicit_role_of_fixed mapMessageTypeToRole_fixed)
  with m' r c show ?thesis
    using message_type_of_fixed[of tbl m] normalizeMessageMedia_fixed date_time_of_fixed[of tbl m]
      message_id_of_fixed[of tbl m]
    by blast
qed

lemma message_object_reads:
  "is_object (message_object r c mt md dt i)"
  "js_get (message_object r c mt md dt i) ''role'' = JStr r"
  "js_get (message_object r c mt md dt i) ''content'' = JStr c"
  "js_get (message_object r c mt md dt i) ''message_text'' = JUndefined"
  "js_get (message_object r c mt md dt i) ''message_type'' = JUndefined"
  "js_get (message_object r c mt md dt i) ''messageType'' = (if mt \<noteq> [] then JStr mt else JUndefined)"
  "js_get (message_object r c mt md dt i) ''media'' = (if md \<noteq> [] then JArr md else JUndefined)"
  "js_get (message_object r c mt md dt i) ''message_media'' = JUndefined"
  "js_get (message_object r c mt md dt i) ''dateTime'' = (if dt \<noteq> [] then JStr dt else JUndefined)"
  "js_get (message_object r c mt md dt i) ''date_time'' = JUndefined"
  "js_get (message_object r c mt md dt i) ''timestamp'' = JUndefined"
  "js_get (message_object r c mt md dt i) ''id'' = (if i \<noteq> [] then JStr i else JUndefined)"
  "js_get (message_object r c mt md dt i) ''message_id'' = JUndefined"
  by (simp_all add: message_object_def)

lemma normalizeConversationMessage_fixed:
  assumes "normalizeConversationMessage tbl m = Some m'"
  shows "normalizeConversationMessage tbl m' = Some m'"
proof -
  from message_shape[OF assms] obtain r c mt md dt i where
    m': "m' = message_object r c mt md dt i" and r: "r \<noteq> []" "toLowerCase (trim tbl r) = r"
    and mt: "toLowerCase (trim tbl mt) = mt"
    and c: "trim tbl c \<noteq> [] \<or> mt = ''template'' \<or> mt = ''escalation''"
    and md: "normalizeMessageMedia tbl (JArr md) = md" and dt: "trim tbl dt = dt" and i: "trim tbl i = i"
    by blast
  have e: "toLowerCase [] = []" "trim tbl [] = []" "normalizeMessageMedia tbl JUndefined = []"
    by (simp_all add: trim_Nil toLowerCase_Nil normalizeMessageMedia_def)
  have 1: "message_type_of tbl m' = mt"
    unfolding m' by (simp add: message_type_of_def message_object_reads js_or_def mt e)
  have 2: "explicit_role_of tbl m' = r"
    unfolding m' using r by (simp add: explicit_role_of_def message_object_reads js_or_def)
  have 3: "content_of m' = c"
    unfolding m' by (simp add: content_of_def message_object_reads)
  have 4: "date_time_of tbl m' = dt"
    unfolding m' by (simp add: date_time_of_def message_object_reads dt e)
  have 5: "message_id_of tbl m' = i"
    unfolding m' by (simp add: message_id_of_def message_object_reads js_or_def i e)
  have 6: "normalizeMessageMedia tbl (js_or (js_get m' ''media'') (js_get m' ''message_media'')) = md"
    unfolding m' by (simp add: message_object_reads js_or_def md e)
  have 7: "is_object m'" unfolding m' by (rule message_object_reads)
  show ?thesis
    unfolding normalizeConversationMessage_def Let_def 1 2 3 4 5 6
    using 7 r c by (auto simp: m' message_object_def)
qed

lemma normalizeConversationList_idempotent:
  "normalizeConversationList tbl (JArr (normalizeConversationList tbl l)) = normalizeConversationList tbl l"
  by (cases l) (simp_all add: normalizeConversationList_def map_filter_fixed
                  normalizeConversationMessage_fixed map_filter_simps)


lemma map_of_js_set: "map_of (js_set obj k v) = (map_of obj)(k \<mapsto> v)"
  by (induction obj) (auto simp: fun_eq_iff)

lemma js_get_js_set:
  "js_get (JObj (js_set obj k v)) k' = (if k' = k then v else js_get (JObj obj) k')"
  by (simp add: map_of_js_set)




subsection \<open>Scenario records\<close>

text \<open>
  What the finished record holds under \<open>companyName\<close>, \<open>agentInitial\<close> and
  \<open>conversation\<close>, and the fact that every value of a normalized scenario map is such a
  record.
\<close>

lemma record_agentInitial:
  "js_get (JObj (normalizeScenarioRecord tbl raw d key)) ''agentInitial''
     = JStr (getCompanyInitial tbl (js_get (JObj (normalizeScenarioRecord tbl raw d key)) ''companyName''))"
  by (simp add: normalizeScenarioRecord_def Let_def js_get_js_set del: js_get.simps)

lemma record_companyName_truthy:
  "truthy (js_get (JObj (normalizeScenarioRecord tbl raw d key)) ''companyName'')"
  by (simp add: normalizeScenarioRecord_def Let_def js_get_js_set del: js_get.simps)

lemma record_companyName:
  "js_get (JObj (normalizeScenarioRecord tbl raw d key)) ''companyName'' =
     (if truthy (js_get (JObj (mergedScenario_literal d (scenarioObject_of raw))) ''companyName'')
      then js_get (JObj (mergedScenario_literal d (scenarioObject_of raw))) ''companyName''
      else JStr (''Scenario '' @ key))"
  by (simp add: normalizeScenarioRecord_def Let_def js_get_js_set del: js_get.simps split: option.splits)

lemma record_conversation:
  "js_get (JObj (normalizeScenarioRecord tbl raw d key)) ''conversation'' =
     JArr (buildConversationFromScenario tbl (JObj
        (let scenarioObject = scenarioObject_of raw;
             m4 = mergedScenario_literal d scenarioObject;
             preloadedConversation =
               (if is_array (js_get scenarioObject ''conversation'') then js_get scenarioObject ''conversation''
                else if is_array (js_get scenarioObject ''messages'') then js_get scenarioObject ''messages''
                else JArr [])
         in if preloadedConversation \<noteq> JArr [] then js_set m4 ''conversation'' preloadedConversation
            else m4)))"
  by (simp add: normalizeScenarioRecord_def Let_def js_get_js_set del: js_get.simps split: option.splits)

lemma build_conversation_set:
  assumes "xs \<noteq> []"
  shows "buildConversationFromScenario tbl (JObj (js_set m ''conversation'' (JArr xs)))
           = normalizeConversationList tbl (JArr xs)"
  using assms
  by (simp add: buildConversationFromScenario_def js_get_js_set del: js_get.simps)

lemma record_conversation_preloaded:
  assumes "xs \<noteq> []"
  shows "js_get (JObj (normalizeScenarioRecord tbl (JObj [(''conversation'', JArr xs)]) d key)) ''conversation''
     = JArr (normalizeConversationList tbl (JArr xs))"
proof -
  have so: "scenarioObject_of (JObj [(''conversation'', JArr xs)]) = JObj [(''conversation'', JArr xs)]"
    by (simp add: scenarioObject_of_def)
  have g: "js_get (JObj [(''conversation'', JArr xs)]) ''conversation'' = JArr xs" by simp
  show ?thesis
    unfolding record_conversation so Let_def g using assms
    by (simp add: build_conversation_set del: js_get.simps)
qed

lemma getCompanyInitial_truthy:
  assumes "truthy v"
  shows "getCompanyInitial tbl v =
           (case trim tbl (js_String v) of [] \<Rightarrow> [] | c # r \<Rightarrow> toUpperCase tbl [c])"
  using assms by (simp add: getCompanyInitial_def js_or_def)

lemma toUpperCase_ascii: "is_ascii c \<Longrightarrow> toUpperCase tbl [c] = [upper_char c]"
  by (simp add: toUpperCase_def)

lemma set_js_set: "set (js_set obj k v) \<subseteq> insert (k, v) (set obj)"
  by (induction obj k v rule: js_set.induct) auto

lemma records_of_addScenario:
  assumes "records_of tbl d E scenarios" and "(key, raw) \<in> set E"
  shows "records_of tbl d E (addScenario tbl d scenarios key raw)"
  using assms set_js_set[of scenarios key "JObj (normalizeScenarioRecord tbl raw d key)"]
  unfolding records_of_def addScenario_def js_assign_def
  by (auto split: if_splits)

lemma records_of_foldl_entries:
  assumes "records_of tbl d E init" and "set entries \<subseteq> set E"
  shows "records_of tbl d E (foldl (\<lambda>scenarios (scenarioKey, rawScenario).
                       addScenario tbl d scenarios scenarioKey rawScenario) init entries)"
  using assms
  by (induction entries arbitrary: init) (auto simp: records_of_addScenario)

lemma records_of_foldl_items:
  assumes "records_of tbl d E init"
    and "\<forall>(index, item) \<in> set items. (show_nat (Suc index), item) \<in> set E"
  shows "records_of tbl d E (foldl (\<lambda>scenarios (index, item).
                                 addScenario tbl d scenarios (show_nat (Suc index)) item) init items)"
  using assms
  by (induction items arbitrary: init) (auto simp: records_of_addScenario)

lemma records_of_array:
  "records_of tbl d (array_scenarios items)
     (if isMessageArray (JArr items)
      then addScenario tbl d [] ''1'' (JObj [(''conversation'', JArr items)])
      else foldl (\<lambda>scenarios (index, item).
                    addScenario tbl d scenarios (show_nat (index + 1)) item) [] (enumerate 0 items))"
proof (cases "isMessageArray (JArr items)")
  case True
  then have a: "array_scenarios items = [(''1'', JObj [(''conversation'', JArr items)])]"
    by (simp add: isMessageArray_def array_scenarios_def)
  have "records_of tbl d (array_scenarios items)
          (addScenario tbl d [] ''1'' (JObj [(''conversation'', JArr items)]))"
    by (rule records_of_addScenario) (simp_all add: records_of_def a)
  with True show ?thesis by simp
next
  case False
  then have a: "array_scenarios items = map (\<lambda>(i, item). (show_nat (i + 1), item)) (enumerate 0 items)"
    by (auto simp: isMessageArray_def array_scenarios_def)
  have "records_of tbl d (array_scenarios items)
          (foldl (\<lambda>scenarios (index, item).
                    addScenario tbl d scenarios (show_nat (Suc index)) item) [] (enumerate 0 items))"
    by (rule records_of_foldl_items) (force simp: records_of_def a)+
  with False show ?thesis by simp
qed

lemma records_of_coerce:
  "records_of tbl (if is_plain_object data then js_or (js_get data ''defaults'') (JObj []) else JObj [])
     (payload_scenarios data) (coerceScenariosPayloadToMap tbl data)"
proof -
  let ?d = "if is_plain_object data then js_or (js_get data ''defaults'') (JObj []) else JObj []"
  have e: "records_of tbl d E []" for d E by (simp add: records_of_def)
  show ?thesis
  proof (cases "is_plain_object data \<and> truthy (js_get data ''scenarios'')
                  \<and> \<not> is_array (js_get data ''scenarios'')")
    case True
    then have p: "payload_scenarios data = own_entries (js_get data ''scenarios'')"
      by (cases data; cases "js_get data ''scenarios''")
         (simp_all add: payload_scenarios_def del: js_get.simps)
    have "records_of tbl ?d (payload_scenarios data)
            (foldl (\<lambda>scenarios (scenarioKey, rawScenario).
                       addScenario tbl ?d scenarios scenarioKey rawScenario)
                [] (own_entries (js_get data ''scenarios'')))"
      by (rule records_of_foldl_entries) (simp_all add: e p)
    with True show ?thesis
      unfolding coerceScenariosPayloadToMap_def Let_def by simp
  next
    case False
    then have c: "(is_plain_object data \<and> truthy (js_get data ''scenarios'')
                    \<and> \<not> is_array (js_get data ''scenarios'')) = False"
      by simp
    show ?thesis
    proof (cases "if is_array data then data
                  else if is_plain_object data \<and> is_array (js_get data ''scenarios'')
                       then js_get data ''scenarios'' else JNull")
      case (JArr items)
      then have p: "payload_scenarios data = array_scenarios items"
        by (cases data; cases "js_get data ''scenarios''")
           (simp_all add: payload_scenarios_def del: js_get.simps split: if_splits)
      show ?thesis
        unfolding coerceScenariosPayloadToMap_def Let_def c if_False JArr jsval.case p
        by (rule records_of_array)
    qed (simp_all only: coerceScenariosPayloadToMap_def Let_def c if_False jsval.case e)
  qed
qed

subsection \<open>Normalized records are fixed points\<close>



lemma keys_js_set: "fst ` set (js_set obj k v) = insert k (fst ` set obj)"
  by (induction obj k v rule: js_set.induct) auto

lemma distinct_js_set: "distinct (map fst obj) \<Longrightarrow> distinct (map fst (js_set obj k v))"
  by (induction obj k v rule: js_set.induct) (auto simp: keys_js_set)



lemma distinct_foldl_js_set:
  "distinct (map fst pre) \<Longrightarrow> distinct (map fst (foldl (\<lambda>obj (k, x). js_set obj k x) pre kvs))"
  by (induction kvs arbitrary: pre) (auto simp: distinct_js_set)

lemma distinct_spread_into:
  "distinct (map fst target) \<Longrightarrow> distinct (map fst (spread_into target v))"
  unfolding spread_into_def by (rule distinct_foldl_js_set)


lemma distinct_mergedScenario_literal: "distinct (map fst (mergedScenario_literal d so))"
  unfolding mergedScenario_literal_def Let_def
  by (intro distinct_js_set distinct_spread_into) simp

lemma normalizeScenarioRecord_stages:
  "normalizeScenarioRecord tbl raw d key =
     (let m5 = withPreloadedConversation (scenarioObject_of raw)
                 (mergedScenario_literal d (scenarioObject_of raw));
          conversation = buildConversationFromScenario tbl (JObj m5)
      in withNames tbl key (withCustomerMessage conversation (js_set m5 ''conversation'' (JArr conversation))))"
  unfolding normalizeScenarioRecord_def withPreloadedConversation_def withCustomerMessage_def
    withNames_def Let_def
  by (rule refl)

lemma map_of_js_set_other: "k' \<noteq> k \<Longrightarrow> map_of (js_set obj k v) k' = map_of obj k'"
  by (simp add: map_of_js_set)

lemma map_of_js_set_this: "map_of (js_set obj k v) k = Some v"
  by (simp add: map_of_js_set)

lemma first_customer_content_truthy:
  "first_customer_content c = Some v \<Longrightarrow> truthy v"
  unfolding first_customer_content_def
  by (auto split: list.splits dest!: arg_cong[where f = "\<lambda>l. hd l \<in> set l"] simp: filter_eq_Cons_iff)

lemma buildConversation_fixed:
  "normalizeConversationList tbl (JArr (buildConversationFromScenario tbl x)) = buildConversationFromScenario tbl x"
proof -
  have e: "normalizeConversationList tbl (JArr []) = []"
    by (simp add: normalizeConversationList_def map_filter_simps)
  show ?thesis
    unfolding buildConversationFromScenario_def
    by (simp add: normalizeConversationList_idempotent e del: js_get.simps)
qed

lemma distinct_withPreloadedConversation:
  "distinct (map fst m) \<Longrightarrow> distinct (map fst (withPreloadedConversation so m))"
  by (simp add: withPreloadedConversation_def Let_def distinct_js_set del: js_get.simps)

lemma distinct_withCustomerMessage:
  "distinct (map fst m) \<Longrightarrow> distinct (map fst (withCustomerMessage c m))"
  by (simp add: withCustomerMessage_def distinct_js_set split: option.splits del: js_get.simps)

lemma distinct_withNames:
  "distinct (map fst m) \<Longrightarrow> distinct (map fst (withNames tbl key m))"
  by (simp add: withNames_def Let_def distinct_js_set del: js_get.simps)

lemma withPreloadedConversation_other:
  "k \<noteq> ''conversation'' \<Longrightarrow> map_of (withPreloadedConversation so m) k = map_of m k"
  by (simp add: withPreloadedConversation_def Let_def map_of_js_set del: js_get.simps)

lemma withCustomerMessage_other:
  "k \<noteq> ''customerMessage'' \<Longrightarrow> map_of (withCustomerMessage c m) k = map_of m k"
  by (simp add: withCustomerMessage_def map_of_js_set split: option.splits del: js_get.simps)

lemma withNames_other:
  "k \<noteq> ''agentName'' \<Longrightarrow> k \<noteq> ''companyName'' \<Longrightarrow> k \<noteq> ''agentInitial''
     \<Longrightarrow> map_of (withNames tbl key m) k = map_of m k"
  by (simp add: withNames_def Let_def map_of_js_set del: js_get.simps)

lemma withCustomerMessage_falsy:
  assumes "\<not> truthy (js_get (JObj (withCustomerMessage c m)) ''customerMessage'')"
  shows "first_customer_content c = None"
proof (cases "first_customer_content c")
  case None
  then show ?thesis .
next
  case (Some v)
  from first_customer_content_truthy[OF Some] assms show ?thesis
    by (auto simp: withCustomerMessage_def Some map_of_js_set split: if_splits)
qed

lemma withNames_agentName:
  "\<not> truthy (js_get (JObj (withNames tbl key m)) ''agentName'')
     \<Longrightarrow> map_of (withNames tbl key m) ''agentName'' = Some (JStr [])"
  by (auto simp: withNames_def Let_def map_of_js_set split: if_splits)

lemma withNames_companyName: "truthy (js_get (JObj (withNames tbl key m)) ''companyName'')"
  by (auto simp: withNames_def Let_def map_of_js_set split: if_splits)

lemma withNames_agentInitial:
  "map_of (withNames tbl key m) ''agentInitial''
     = Some (JStr (getCompanyInitial tbl (js_get (JObj (withNames tbl key m)) ''companyName'')))"
  by (auto simp: withNames_def Let_def map_of_js_set split: if_splits)

lemma mergedScenario_literal_parts:
  "\<exists>g. map_of (mergedScenario_literal d so) ''guidelines'' = Some (JObj g) \<and> distinct (map fst g)"
  "\<exists>n. map_of (mergedScenario_literal d so) ''notes'' = Some (JObj n) \<and> distinct (map fst n)"
  "\<exists>p. map_of (mergedScenario_literal d so) ''rightPanel'' = Some (JObj p) \<and> distinct (map fst p)"
  by (simp_all add: mergedScenario_literal_def Let_def map_of_js_set distinct_spread_into
        del: js_get.simps)

lemma normalized_record_normalizeScenarioRecord:
  "normalized_record tbl (normalizeScenarioRecord tbl raw d key)"
proof -
  define so where "so = scenarioObject_of raw"
  define m5 where "m5 = withPreloadedConversation so (mergedScenario_literal d so)"
  define c where "c = buildConversationFromScenario tbl (JObj m5)"
  define m6 where "m6 = js_set m5 ''conversation'' (JArr c)"
  define m7 where "m7 = withCustomerMessage c m6"
  define r where "r = withNames tbl key m7"
  have r: "normalizeScenarioRecord tbl raw d key = r"
    unfolding normalizeScenarioRecord_stages Let_def r_def m7_def m6_def c_def m5_def so_def ..
  have d5: "distinct (map fst m5)"
    unfolding m5_def by (intro distinct_withPreloadedConversation distinct_mergedScenario_literal)
  have d: "distinct (map fst r)"
    unfolding r_def m7_def m6_def
    by (intro distinct_withNames distinct_withCustomerMessage distinct_js_set d5)
  have keep: "map_of r k = map_of (mergedScenario_literal d so) k"
    if "k = ''guidelines'' \<or> k = ''notes'' \<or> k = ''rightPanel''" for k
    using that unfolding r_def m7_def m6_def m5_def
    by (auto simp: withNames_other withCustomerMessage_other map_of_js_set_other
          withPreloadedConversation_other)
  have conv: "map_of r ''conversation'' = Some (JArr c)"
    unfolding r_def m7_def m6_def
    by (simp add: withNames_other withCustomerMessage_other map_of_js_set_this)
  have cfix: "normalizeConversationList tbl (JArr c) = c"
    unfolding c_def by (rule buildConversation_fixed)
  have cm: "js_get (JObj r) ''customerMessage'' = js_get (JObj m7) ''customerMessage''"
    unfolding r_def by (simp add: withNames_other)
  have cust: "\<not> truthy (js_get (JObj r) ''customerMessage'') \<longrightarrow> first_customer_content c = None"
    unfolding cm m7_def using withCustomerMessage_falsy by blast
  show ?thesis
    unfolding r normalized_record_def
    using d keep[of "''guidelines''"] keep[of "''notes''"] keep[of "''rightPanel''"]
      mergedScenario_literal_parts[of d so] conv cfix cust
      withNames_agentName[of tbl key m7] withNames_companyName[of tbl key m7]
      withNames_agentInitial[of tbl key m7]
    unfolding r_def[symmetric]
    by (simp del: js_get.simps)
qed








subsection \<open>Positions and circular targets\<close>










subsection \<open>Keeping first occurrences\<close>

text \<open>
  The editor's loop with its hash table of seen keys computes \<open>keep_first_by_key\<close> on
  the texts that reach the table. The result is a subsequence; no kept entry's key is
  found equal to a key the table held before or to the key of an earlier kept entry; and
  every text is kept or was skipped for a key the table already held.
\<close>

lemma unique_loop_keep_first:
  "unique_loop net seen result items =
     result @ keep_first_by_key net seen
                (filter (\<lambda>t. t \<noteq> []) (map (\<lambda>item. Trim net (FormKC net item)) items))"
  by (induction items arbitrary: seen result)
     (auto simp: Let_def ContainsKey_def Get_StringValue_def)

lemma keep_first_subseq: "subseq (keep_first_by_key net seen xs) xs"
  by (induction xs arbitrary: seen) auto

lemma keep_first_fresh:
  "r \<in> set (keep_first_by_key net seen xs) \<Longrightarrow> k \<in> set seen
     \<Longrightarrow> \<not> key_equals net k (ToLowerInvariant net r)"
proof (induction xs arbitrary: seen)
  case Nil
  then show ?case by simp
next
  case (Cons x xs)
  show ?case
  proof (cases "list_ex (\<lambda>k. key_equals net k (ToLowerInvariant net x)) seen")
    case True
    with Cons.prems have "r \<in> set (keep_first_by_key net seen xs)" by simp
    from Cons.IH[OF this Cons.prems(2)] show ?thesis .
  next
    case False
    with Cons.prems(1)
    have "r = x \<or> r \<in> set (keep_first_by_key net (seen @ [ToLowerInvariant net x]) xs)"
      by simp
    then show ?thesis
    proof
      assume "r = x"
      with False Cons.prems(2) show ?thesis by (auto simp: list_ex_iff)
    next
      assume r: "r \<in> set (keep_first_by_key net (seen @ [ToLowerInvariant net x]) xs)"
      from Cons.prems(2) have "k \<in> set (seen @ [ToLowerInvariant net x])" by simp
      from Cons.IH[OF r this] show ?thesis .
    qed
  qed
qed

lemma keep_first_pairwise:
  "sorted_wrt (\<lambda>a b. \<not> key_equals net (ToLowerInvariant net a) (ToLowerInvariant net b))
     (keep_first_by_key net seen xs)"
proof (induction xs arbitrary: seen)
  case Nil
  then show ?case by simp
next
  case (Cons x xs)
  have "\<not> key_equals net (ToLowerInvariant net x) (ToLowerInvariant net r)"
    if "r \<in> set (keep_first_by_key net (seen @ [ToLowerInvariant net x]) xs)" for r
    using keep_first_fresh[OF that, of "ToLowerInvariant net x"] by simp
  with Cons show ?case by simp
qed

lemma keep_first_distinct:
  assumes "\<forall>k. key_equals net k k"
  shows "distinct (map (ToLowerInvariant net) (keep_first_by_key net seen xs))"
proof -
  have "distinct (map f ys)" if "sorted_wrt (\<lambda>a b. \<not> key_equals net (f a) (f b)) ys"
    for f :: "string \<Rightarrow> string" and ys
    using that assms by (induction ys) (auto simp: image_iff)
  from this[OF keep_first_pairwise] show ?thesis .
qed

lemma keep_first_covers:
  "t \<in> set xs \<Longrightarrow>
     t \<in> set (keep_first_by_key net seen xs)
     \<or> (\<exists>k \<in> set seen. key_equals net k (ToLowerInvariant net t))
     \<or> (\<exists>r \<in> set (keep_first_by_key net seen xs).
           key_equals net (ToLowerInvariant net r) (ToLowerInvariant net t))"
proof (induction xs arbitrary: seen)
  case Nil
  then show ?case by simp
next
  case (Cons x xs)
  show ?case
  proof (cases "t = x")
    case True
    then show ?thesis by (auto simp: list_ex_iff)
  next
    case False
    with Cons.prems have t: "t \<in> set xs" by simp
    show ?thesis
    proof (cases "list_ex (\<lambda>k. key_equals net k (ToLowerInvariant net x)) seen")
      case True
      with Cons.IH[OF t, of seen] show ?thesis by auto
    next
      case False
      with Cons.IH[OF t, of "seen @ [ToLowerInvariant net x]"] show ?thesis by auto
    qed
  qed
qed

lemma candidate_texts_Convert:
  "filter (\<lambda>t. t \<noteq> []) (map (\<lambda>item. Trim net (FormKC net item)) (Convert_ToStringArray net v))
     = candidate_texts net v"
proof -
  have k: "ps_keep net = (\<lambda>t. t \<noteq> [] \<and> \<not> ps_eq net t ''{}'' \<and> \<not> ps_eq net t ''[]'')"
    by (simp add: fun_eq_iff ps_keep_def)
  have g: "Get_StringValue net = (\<lambda>leaf. case leaf of None \<Rightarrow> [] | Some text \<Rightarrow> FormKC net text)"
    by (simp add: fun_eq_iff Get_StringValue_def)
  show ?thesis
    unfolding candidate_texts_def Convert_ToStringArray_def ps_leaves_def k g
    by (cases v) (simp_all add: comp_def)
qed

subsection \<open>Label texts of the console\<close>

text \<open>
  For an array, the console's list holds one entry for each item whose text survives the
  two filters, in the order of the items.
\<close>

lemma label_texts_items:
  "label_texts tbl items =
     map (\<lambda>item. strip_quotes (trim tbl (js_String (js_or item (JStr [])))))
       (filter (\<lambda>item. trim tbl (js_String (js_or item (JStr []))) \<noteq> []
                    \<and> trim tbl (js_String (js_or item (JStr []))) \<noteq> ''[object Object]''
                    \<and> strip_quotes (trim tbl (js_String (js_or item (JStr [])))) \<noteq> [])
          items)"
  unfolding label_texts_def by (induction items) simp_all

lemma strip_quotes_unquoted:
  assumes "s \<noteq> []" and "\<not> is_quote (hd s)" and "\<not> is_quote (last s)"
  shows "strip_quotes s = s"
  using assms by (cases s) (simp_all add: strip_quotes_def)

lemma label_texts_clean:
  assumes "\<forall>s \<in> set ts. s \<noteq> [] \<and> trim tbl s = s \<and> s \<noteq> ''[object Object]''
                          \<and> \<not> is_quote (hd s) \<and> \<not> is_quote (last s)"
  shows "label_texts tbl (map JStr ts) = ts"
  using assms
proof (induction ts)
  case Nil
  then show ?case by (simp add: label_texts_def)
next
  case (Cons t ts)
  from Cons.prems have t: "t \<noteq> []" "trim tbl t = t" "t \<noteq> ''[object Object]''"
    "strip_quotes t = t" by (simp_all add: strip_quotes_unquoted)
  from Cons.prems have "label_texts tbl (map JStr ts) = ts" by (intro Cons.IH) simp
  then show ?case using t unfolding label_texts_items by (simp add: js_or_def)
qed

subsection \<open>Merged values\<close>

text \<open>
  What a property read gives on \<open>{...defaults, ...scenario}\<close> when both list each key
  once: the scenario's value when the scenario has the property, the defaults' value
  otherwise.
\<close>

lemma map_of_foldl_js_set:
  "map_of (foldl (\<lambda>obj (k, x). js_set obj k x) pre kvs) = map_of pre ++ map_of (rev kvs)"
proof (induction kvs arbitrary: pre)
  case Nil
  then show ?case by simp
next
  case (Cons kv kvs)
  obtain k x where kv: "kv = (k, x)" by (cases kv)
  show ?case unfolding kv
    by (simp add: Cons.IH map_of_js_set fun_eq_iff map_add_def split: option.splits)
qed

lemma show_nat_digits: "list_all is_digit (show_nat n)"
proof (induction n rule: show_nat.induct)
  case (1 n)
  have d: "is_digit (digit_char m)" if "m < 10" for m
    using that by (simp add: is_digit_def digit_char_def)
  show ?case
  proof (cases "n < 10")
    case True
    then show ?thesis by (subst show_nat.simps) (simp add: d)
  next
    case False
    with 1 have "list_all is_digit (show_nat (n div 10))" by simp
    with False show ?thesis by (subst show_nat.simps) (simp add: d)
  qed
qed

lemma index_key_not_name:
  assumes "\<not> list_all is_digit k"
  shows "k \<notin> fst ` set (map (\<lambda>(i, x). (show_nat i, f x)) (enumerate n xs))"
  using assms show_nat_digits by (auto simp: image_iff)

lemma js_get_spread_into:
  assumes "keys_once v" and "\<not> list_all is_digit k"
  shows "js_get (JObj (spread_into target v)) k =
           (if has_own v k then js_get v k else js_get (JObj target) k)"
proof (cases v)
  case (JObj kvs)
  with assms(1) have d: "distinct (map fst kvs)" by (simp add: keys_once_def)
  have m: "map_of (rev kvs) = map_of kvs"
    using d by (simp add: map_of_inject_set distinct_rev rev_map[symmetric])
  have ho: "has_own (JObj kvs) k = (map_of kvs k \<noteq> None)"
    by (simp add: map_of_eq_None_iff)
  show ?thesis
    unfolding JObj spread_into_def ho
    by (simp add: map_of_foldl_js_set m map_add_def split: option.splits)
next
  case (JArr xs)
  have "map_of (rev (map (\<lambda>(i, x). (show_nat i, x)) (enumerate 0 xs))) k = None"
    using index_key_not_name[OF assms(2), of "\<lambda>x. x" 0 xs]
    by (simp add: map_of_eq_None_iff)
  then show ?thesis
    unfolding JArr spread_into_def by (simp add: map_of_foldl_js_set map_add_def)
next
  case (JStr str)
  have "map_of (rev (map (\<lambda>(i, c). (show_nat i, JStr [c])) (enumerate 0 str))) k = None"
    using index_key_not_name[OF assms(2), of "\<lambda>c. JStr [c]" 0 str]
    by (simp add: map_of_eq_None_iff)
  then show ?thesis
    unfolding JStr spread_into_def by (simp add: map_of_foldl_js_set map_add_def)
qed (simp_all add: spread_into_def)

lemma js_get_not_own: "\<not> has_own v k \<Longrightarrow> js_get v k = JUndefined"
proof (cases v)
  case (JObj kvs)
  assume "\<not> has_own v k"
  then have "map_of kvs k = None" unfolding JObj by (simp add: map_of_eq_None_iff)
  then show ?thesis unfolding JObj by simp
qed simp_all

lemma merged_companyName:
  assumes "keys_once so" and "keys_once d"
  shows "js_get (JObj (mergedScenario_literal d so)) ''companyName'' =
           (if has_own so ''companyName'' then js_get so ''companyName''
            else js_get d ''companyName'')"
proof -
  have n: "\<not> list_all is_digit ''companyName''" by (simp add: is_digit_def)
  have h: "\<not> has_own d ''companyName'' \<Longrightarrow> js_get d ''companyName'' = JUndefined"
    by (rule js_get_not_own)
  have "js_get (JObj (mergedScenario_literal d so)) ''companyName''
          = js_get (JObj (spread_into (spread_into [] d) so)) ''companyName''"
    unfolding mergedScenario_literal_def Let_def
    by (simp add: js_get_js_set del: js_get.simps)
  also have "\<dots> = (if has_own so ''companyName'' then js_get so ''companyName''
            else js_get d ''companyName'')"
    unfolding js_get_spread_into[OF assms(1) n] js_get_spread_into[OF assms(2) n]
    using h by simp
  finally show ?thesis .
qed

subsection \<open>Role of a fetched assignment\<close>

text \<open>
  C10. Whenever an assignment context is built from a fetched assignment, its role is
  'editor' or 'viewer', and it is 'viewer' exactly when the role the server returned is
  the string 'viewer'; every other server value (missing, empty, another string, a
  non-string) gives 'editor'.
\<close>

theorem assignment_role_editor_or_viewer:
  assumes "loadAssignmentContextFromUrl tbl url fetched scenarios = Inr (Some ctx)"
  shows "\<exists>response. fetched = Inr response
           \<and> (role ctx = ''editor'' \<or> role ctx = ''viewer'')
           \<and> (role ctx = ''viewer'' \<longleftrightarrow>
                js_get (js_get response ''assignment'') ''role'' = JStr ''viewer'')"
  using assms
  by (cases fetched)
     (auto simp: loadAssignmentContextFromUrl_def Let_def
           split: if_splits option.splits prod.splits)

theorem assignment_role_editor_or_viewer_witness:
  "loadAssignmentContextFromUrl example_tables
     \<lparr>q_aid = Some ''a1'', q_token = Some ''t1'', q_mode = None\<rparr>
     (Inr (JObj [(''assignment'',
                  JObj [(''assignment_id'', JStr ''a1''), (''send_id'', JStr ''s1''),
                        (''role'', JStr ''Viewer'')])]))
     [(''1'', JObj [(''id'', JStr ''s1'')])]
   = Inr (Some \<lparr> assignment_id = JStr ''a1'', send_id = JStr ''s1'', role = ''editor'',
                   ctx_mode = ''edit'', ctx_token = ''t1'', status = JStr [], ctx_scenarioKey = ''1'',
                   form_state_json = JStr [], internal_note = JStr [] \<rparr>)
   \<and> js_get (js_get (JObj [(''assignment'',
                  JObj [(''assignment_id'', JStr ''a1''), (''send_id'', JStr ''s1''),
                        (''role'', JStr ''Viewer'')])]) ''assignment'') ''role'' \<noteq> JStr ''viewer''"
proof -
  let ?url = "\<lparr>q_aid = Some ''a1'', q_token = Some ''t1'', q_mode = None\<rparr>"
  let ?response = "JObj [(''assignment'',
                  JObj [(''assignment_id'', JStr ''a1''), (''send_id'', JStr ''s1''),
                        (''role'', JStr ''Viewer'')])]"
  let ?ctx = "\<lparr> assignment_id = JStr ''a1'', send_id = JStr ''s1'', role = ''editor'',
                   ctx_mode = ''edit'', ctx_token = ''t1'', status = JStr [], ctx_scenarioKey = ''1'',
                   form_state_json = JStr [], internal_note = JStr [] \<rparr>"
  have h: "loadAssignmentContextFromUrl example_tables ?url (Inr ?response) [(''1'', JObj [(''id'', JStr ''s1'')])]
           = Inr (Some ?ctx)"
    by code_simp
  from assignment_role_editor_or_viewer [OF h] have "role ?ctx \<noteq> ''viewer'' \<longrightarrow>
      js_get (js_get ?response ''assignment'') ''role'' \<noteq> JStr ''viewer''"
    by auto
  with h show ?thesis by simp
qed

subsection \<open>Evaluation category cells\<close>

text \<open>
  C7. For every category and every selection, the cell is the comma-join of the
  category's labels, in the category's fixed display order, that are labels of selected
  slugs; two selections with the same set of slugs give the same cell whatever their
  order; and selecting upsell before general_recommendation in product_sales gives
  "General Recommendation,Upsell".
\<close>

theorem buildCategoryCell_fixed_order:
  "buildCategoryCell sel cat =
     join '',''
       (filter (\<lambda>label. \<exists>slug \<in> set (sel cat).
                  map_of (case map_of VALUE_TO_LABEL cat of Some m \<Rightarrow> m | None \<Rightarrow> []) slug = Some label
                  \<and> label \<noteq> [])
          (case map_of CATEGORY_LABELS cat of Some labels \<Rightarrow> labels | None \<Rightarrow> []))
   \<and> (set (sel cat) = set (sel' cat) \<longrightarrow> buildCategoryCell sel cat = buildCategoryCell sel' cat)
   \<and> buildCategoryCell (\<lambda>c. if c = ''product_sales'' then [''upsell'', ''general_recommendation''] else [])
        ''product_sales'' = ''General Recommendation,Upsell''"
proof -
  have mem: "set (filter (\<lambda>label. label \<noteq> []) (List.map_filter (map_of m) xs))
             = {label. \<exists>slug \<in> set xs. map_of m slug = Some label \<and> label \<noteq> []}"
    for m :: "(string \<times> string) list" and xs
    by (force simp: List.map_filter_def image_iff)
  have a: "buildCategoryCell s cat =
     join '',''
       (filter (\<lambda>label. \<exists>slug \<in> set (s cat).
                  map_of (case map_of VALUE_TO_LABEL cat of Some m \<Rightarrow> m | None \<Rightarrow> []) slug = Some label
                  \<and> label \<noteq> [])
          (case map_of CATEGORY_LABELS cat of Some labels \<Rightarrow> labels | None \<Rightarrow> []))" for s
    unfolding buildCategoryCell_def Let_def mem by simp
  have b: "set (sel cat) = set (sel' cat) \<longrightarrow> buildCategoryCell sel cat = buildCategoryCell sel' cat"
    unfolding a by simp
  have c: "buildCategoryCell (\<lambda>c. if c = ''product_sales'' then [''upsell'', ''general_recommendation''] else [])
        ''product_sales'' = ''General Recommendation,Upsell''"
    by code_simp
  from a b c show ?thesis by blast
qed

theorem buildCategoryCell_fixed_order_witness:
  "set [''upsell'', ''general_recommendation''] = set [''general_recommendation'', ''upsell'', ''upsell'']
   \<and> buildCategoryCell (\<lambda>c. [''upsell'', ''general_recommendation'']) ''product_sales''
     = buildCategoryCell (\<lambda>c. [''general_recommendation'', ''upsell'', ''upsell'']) ''product_sales''"
proof -
  have h: "set [''upsell'', ''general_recommendation''] = set [''general_recommendation'', ''upsell'', ''upsell'']"
    by auto
  from buildCategoryCell_fixed_order
         [of "\<lambda>c. [''upsell'', ''general_recommendation'']" "''product_sales''"
             "\<lambda>c. [''general_recommendation'', ''upsell'', ''upsell'']"] h
  show ?thesis by blast
qed

subsection \<open>The view-only gate of the submit handler\<close>

text \<open>
  C8. While the active assignment context has role viewer (any role other than editor)
  or mode view, the submit handler issues no network request and reports the view-only
  rejection, whatever the form holds and whatever the remote end would answer.
\<close>

theorem submit_rejected_for_viewer_or_view_mode:
  assumes "role c = ''viewer'' \<or> ctx_mode c = ''view''"
  shows "requests (submit_handler tbl (Some c) env) = []
         \<and> formStatus (submit_handler tbl (Some c) env) = ''View-only link cannot submit.''
         \<and> location_href (submit_handler tbl (Some c) env) = None"
  using assms by (auto simp: submit_handler_def)

theorem submit_rejected_for_viewer_or_view_mode_witness:
  "(role \<lparr> assignment_id = JStr ''a1'', send_id = JStr ''s1'', role = ''viewer'',
            ctx_mode = ''edit'', ctx_token = ''t1'', status = JStr [], ctx_scenarioKey = ''1'',
            form_state_json = JStr [], internal_note = JStr [] \<rparr> = ''viewer'')
   \<and> requests (submit_handler example_tables
        (Some \<lparr> assignment_id = JStr ''a1'', send_id = JStr ''s1'', role = ''viewer'',
                 ctx_mode = ''edit'', ctx_token = ''t1'', status = JStr [], ctx_scenarioKey = ''1'',
                 form_state_json = JStr [], internal_note = JStr [] \<rparr>)
        \<lparr> form_entries = [(''product_sales'', ''upsell''), (''notes'', ''Good reply.'')],
          zeroToleranceLabel = ''None'', stored_agentName = Some ''amy'',
          stored_agentEmail = None, auditTime = ''00:42'', timestamp = ''1/30/2025 13:24:49'',
          evaluation_reply = Some (True, Some (JObj [(''status'', JStr ''success'')]), []),
          draft_form_state = ''{}'', internal_notes_value = [],
          done_reply = Inr (JObj [(''assignments'', JArr [])]),
          app_base = ''https://example.test/app.html'', assignment_select_present = True \<rparr>) = []"
proof -
  let ?c = "\<lparr> assignment_id = JStr ''a1'', send_id = JStr ''s1'', role = ''viewer'',
            ctx_mode = ''edit'', ctx_token = ''t1'', status = JStr [], ctx_scenarioKey = ''1'',
            form_state_json = JStr [], internal_note = JStr [] \<rparr>"
  have h: "role ?c = ''viewer'' \<or> ctx_mode ?c = ''view''" by simp
  from submit_rejected_for_viewer_or_view_mode [OF h] show ?thesis by simp
qed

text \<open>
  The same form and the same replies in an editor context in edit mode: the evaluation
  is posted, then the draft is saved and the assignment marked done.
\<close>

lemma submit_editor_posts_example:
  "map (\<lambda>r. case r of PostEvaluation p \<Rightarrow> ''evaluation'' | PostSaveDraft p \<Rightarrow> ''saveDraft''
                     | PostDone p \<Rightarrow> ''done'')
     (requests (submit_handler example_tables
        (Some \<lparr> assignment_id = JStr ''a1'', send_id = JStr ''s1'', role = ''editor'',
                 ctx_mode = ''edit'', ctx_token = ''t1'', status = JStr [], ctx_scenarioKey = ''1'',
                 form_state_json = JStr [], internal_note = JStr [] \<rparr>)
        \<lparr> form_entries = [(''product_sales'', ''upsell''), (''notes'', ''Good reply.'')],
          zeroToleranceLabel = ''None'', stored_agentName = Some ''amy'',
          stored_agentEmail = None, auditTime = ''00:42'', timestamp = ''1/30/2025 13:24:49'',
          evaluation_reply = Some (True, Some (JObj [(''status'', JStr ''success'')]), []),
          draft_form_state = ''{}'', internal_notes_value = [],
          done_reply = Inr (JObj [(''assignments'', JArr [])]),
          app_base = ''https://example.test/app.html'', assignment_select_present = True \<rparr>))
   = [''evaluation'', ''saveDraft'', ''done'']"
  by code_simp

subsection \<open>Blank messages\<close>

text \<open>
  C3. Whatever the engine's white space is outside ASCII: a message whose resolved
  content is blank (empty after trimming) and whose message type (trimmed and
  lower-cased) is not an event type, for instance "agent", normalizes to null; a message
  whose type is "template" or "escalation" is kept whatever its content, blank included,
  with its content and type unchanged; hence every message of a normalized conversation,
  and so every message in the conversation of a record of a normalized scenario map, has
  non-blank content or is a template or escalation event.
\<close>

theorem blank_content_dropped_unless_event:
  "(trim tbl (content_of m) = [] \<and> message_type_of tbl m \<noteq> ''template'' \<and> message_type_of tbl m \<noteq> ''escalation''
      \<longrightarrow> normalizeConversationMessage tbl m = None)
   \<and> (message_type_of tbl m = ''template'' \<or> message_type_of tbl m = ''escalation''
      \<longrightarrow> (\<exists>m'. normalizeConversationMessage tbl m = Some m'
                \<and> js_get m' ''content'' = JStr (content_of m)
                \<and> js_get m' ''messageType'' = JStr (message_type_of tbl m)))
   \<and> (\<forall>m' \<in> set (normalizeConversationList tbl l).
         \<exists>c. js_get m' ''content'' = JStr c
           \<and> (trim tbl c \<noteq> [] \<or> js_get m' ''messageType'' = JStr ''template''
                \<or> js_get m' ''messageType'' = JStr ''escalation''))
   \<and> (\<forall>(key, rec) \<in> set (coerceScenariosPayloadToMap tbl data).
         \<exists>conversation. js_get rec ''conversation'' = JArr conversation
           \<and> (\<forall>m' \<in> set conversation.
                 \<exists>c. js_get m' ''content'' = JStr c
                   \<and> (trim tbl c \<noteq> [] \<or> js_get m' ''messageType'' = JStr ''template''
                        \<or> js_get m' ''messageType'' = JStr ''escalation'')))"
proof -
  have drop: "trim tbl (content_of m) = [] \<and> message_type_of tbl m \<noteq> ''template''
                \<and> message_type_of tbl m \<noteq> ''escalation''
              \<longrightarrow> normalizeConversationMessage tbl m = None"
    by (simp add: normalizeConversationMessage_def Let_def)
  have keep: "message_type_of tbl m = ''template'' \<or> message_type_of tbl m = ''escalation''
      \<longrightarrow> (\<exists>m'. normalizeConversationMessage tbl m = Some m'
                \<and> js_get m' ''content'' = JStr (content_of m)
                \<and> js_get m' ''messageType'' = JStr (message_type_of tbl m))"
  proof
    assume ev: "message_type_of tbl m = ''template'' \<or> message_type_of tbl m = ''escalation''"
    then have "message_type_of tbl m \<noteq> []" by auto
    then have obj: "is_object m"
      by (cases m) (simp_all add: message_type_of_def js_or_def trim_Nil toLowerCase_Nil)
    have sys: "mapMessageTypeToRole tbl (message_type_of tbl m) = ''system''"
      using ev message_type_of_fixed[of tbl m]
      by (auto simp: mapMessageTypeToRole_def Let_def trim_toLowerCase toLowerCase_idem)
    show "\<exists>m'. normalizeConversationMessage tbl m = Some m'
                \<and> js_get m' ''content'' = JStr (content_of m)
                \<and> js_get m' ''messageType'' = JStr (message_type_of tbl m)"
      using ev obj sys by (auto simp: normalizeConversationMessage_def Let_def)
  qed
  have inv: "\<exists>c. js_get m' ''content'' = JStr c
           \<and> (trim tbl c \<noteq> [] \<or> js_get m' ''messageType'' = JStr ''template''
                \<or> js_get m' ''messageType'' = JStr ''escalation'')"
    if "m' \<in> set (normalizeConversationList tbl l')" for m' l'
  proof -
    from that obtain m0 where "normalizeConversationMessage tbl m0 = Some m'"
      by (cases l') (auto simp: normalizeConversationList_def List.map_filter_def)
    from message_shape[OF this] obtain r c mt md dt i where
      m': "m' = message_object r c mt md dt i"
      and c: "trim tbl c \<noteq> [] \<or> mt = ''template'' \<or> mt = ''escalation''" by blast
    show ?thesis unfolding m' using c by (auto simp: message_object_reads)
  qed
  have recs: "\<exists>conversation. js_get rec ''conversation'' = JArr conversation
           \<and> (\<forall>m' \<in> set conversation.
                 \<exists>c. js_get m' ''content'' = JStr c
                   \<and> (trim tbl c \<noteq> [] \<or> js_get m' ''messageType'' = JStr ''template''
                        \<or> js_get m' ''messageType'' = JStr ''escalation''))"
    if "(key, rec) \<in> set (coerceScenariosPayloadToMap tbl data)" for key rec
  proof -
    from records_of_coerce[of tbl data] that obtain r where
      rec: "rec = JObj r" and n: "normalized_record tbl r"
      unfolding records_of_def using normalized_record_normalizeScenarioRecord by blast
    from n obtain conversation where
      c: "map_of r ''conversation'' = Some (JArr conversation)"
         "normalizeConversationList tbl (JArr conversation) = conversation"
      unfolding normalized_record_def by blast
    have "js_get rec ''conversation'' = JArr conversation" unfolding rec using c(1) by simp
    moreover have "\<exists>c. js_get m' ''content'' = JStr c
                   \<and> (trim tbl c \<noteq> [] \<or> js_get m' ''messageType'' = JStr ''template''
                        \<or> js_get m' ''messageType'' = JStr ''escalation'')"
      if "m' \<in> set conversation" for m'
      using inv[of m' "JArr conversation"] that unfolding c(2) .
    ultimately show ?thesis by blast
  qed
  from drop keep inv recs show ?thesis by blast
qed

theorem blank_content_dropped_unless_event_witness:
  "normalizeConversationMessage example_tables (JObj [(''message_type'', JStr ''agent''), (''content'', JStr ''  '')]) = None
   \<and> normalizeConversationMessage example_tables (JObj [(''message_type'', JStr ''Template''), (''message_text'', JStr [])])
       = Some (JObj [(''role'', JStr ''system''), (''content'', JStr []), (''messageType'', JStr ''template'')])
   \<and> normalizeConversationList example_tables (JArr [JObj [(''message_type'', JStr ''agent''), (''content'', JStr ''  '')],
                                      JObj [(''message_type'', JStr ''Template''), (''message_text'', JStr [])],
                                      JObj [(''role'', JStr ''agent''), (''content'', JStr ''Hello'')]])
       = [JObj [(''role'', JStr ''system''), (''content'', JStr []), (''messageType'', JStr ''template'')],
          JObj [(''role'', JStr ''agent''), (''content'', JStr ''Hello'')]]"
proof -
  let ?a = "JObj [(''message_type'', JStr ''agent''), (''content'', JStr ''  '')]"
  let ?t = "JObj [(''message_type'', JStr ''Template''), (''message_text'', JStr [])]"
  have a: "trim example_tables (content_of ?a) = [] \<and> message_type_of example_tables ?a \<noteq> ''template'' \<and> message_type_of example_tables ?a \<noteq> ''escalation''"
    by code_simp
  have t: "message_type_of example_tables ?t = ''template'' \<or> message_type_of example_tables ?t = ''escalation''"
    by code_simp
  have t': "content_of ?t = [] \<and> message_type_of example_tables ?t = ''template''" by code_simp
  from blank_content_dropped_unless_event [where tbl = example_tables and m = ?a] a
  have 1: "normalizeConversationMessage example_tables ?a = None" by blast
  from blank_content_dropped_unless_event [where tbl = example_tables and m = ?t] t obtain m' where
    "normalizeConversationMessage example_tables ?t = Some m'" by blast
  then have 2: "normalizeConversationMessage example_tables ?t
       = Some (JObj [(''role'', JStr ''system''), (''content'', JStr []), (''messageType'', JStr ''template'')])"
    by code_simp
  have 3: "normalizeConversationMessage example_tables (JObj [(''role'', JStr ''agent''), (''content'', JStr ''Hello'')])
       = Some (JObj [(''role'', JStr ''agent''), (''content'', JStr ''Hello'')])"
    by code_simp
  from 1 2 3 show ?thesis
    by (simp add: normalizeConversationList_def map_filter_simps)
qed

text \<open>
  With U+00A0 as white space: an agent message whose content is that code unit alone is
  dropped, and a message of type "template" followed by U+00A0, with empty content, is
  kept as a template event.
\<close>

lemma no_break_space_messages_example:
  "normalizeConversationMessage example_tables
     (JObj [(''message_type'', JStr ''agent''), (''content'', JStr [CHR 0xA0])]) = None
   \<and> normalizeConversationMessage example_tables
     (JObj [(''message_type'', JStr (''template'' @ [CHR 0xA0])), (''content'', JStr [])])
       = Some (JObj [(''role'', JStr ''system''), (''content'', JStr []),
                     (''messageType'', JStr ''template'')])"
  by code_simp

subsection \<open>Single-message arrays\<close>

text \<open>
  C2, as the code has it. For every non-empty top-level array (a bare array, or the
  \<open>scenarios\<close> array of an object) in which every element looks like a single message,
  the normalizer produces exactly one scenario, keyed "1", built from the raw record
  whose conversation is that array; the record's conversation is the array after message
  normalization. The array must be non-empty: \<open>isMessageArray\<close> asks for a positive
  length.
\<close>

theorem message_array_is_one_scenario:
  assumes "xs \<noteq> []" and "list_all isConversationMessageObject xs"
    and "data = JArr xs \<or> (is_plain_object data \<and> js_get data ''scenarios'' = JArr xs)"
  shows "\<exists>rec. coerceScenariosPayloadToMap tbl data = [(''1'', JObj rec)]
           \<and> js_get (JObj rec) ''conversation'' = JArr (normalizeConversationList tbl (JArr xs))"
proof -
  let ?d = "if is_plain_object data then js_or (js_get data ''defaults'') (JObj []) else JObj []"
  let ?rec = "normalizeScenarioRecord tbl (JObj [(''conversation'', JArr xs)]) ?d ''1''"
  have m: "isMessageArray (JArr xs)" using assms(1,2) by (simp add: isMessageArray_def)
  have "coerceScenariosPayloadToMap tbl data = [(''1'', JObj ?rec)]"
    using assms(3) m
    by (cases data) (auto simp: coerceScenariosPayloadToMap_def Let_def addScenario_def js_assign_def)
  moreover have "js_get (JObj ?rec) ''conversation'' = JArr (normalizeConversationList tbl (JArr xs))"
    by (rule record_conversation_preloaded[OF assms(1)])
  ultimately show ?thesis by blast
qed

theorem message_array_is_one_scenario_witness:
  "coerceScenariosPayloadToMap example_tables
     (JArr [JObj [(''message_type'', JStr ''subscriber''), (''message_text'', JStr ''Hi'')],
            JObj [(''role'', JStr ''agent''), (''content'', JStr ''Hello'')]])
   = [(''1'', JObj [(''conversation'',
                     JArr [JObj [(''role'', JStr ''customer''), (''content'', JStr ''Hi''),
                                 (''messageType'', JStr ''subscriber'')],
                           JObj [(''role'', JStr ''agent''), (''content'', JStr ''Hello'')]]),
                    (''guidelines'', JObj []), (''notes'', JObj []), (''rightPanel'', JObj []),
                    (''customerMessage'', JStr ''Hi''), (''agentName'', JStr []),
                    (''companyName'', JStr ''Scenario 1''), (''agentInitial'', JStr ''S'')])]"
proof -
  let ?xs = "[JObj [(''message_type'', JStr ''subscriber''), (''message_text'', JStr ''Hi'')],
              JObj [(''role'', JStr ''agent''), (''content'', JStr ''Hello'')]]"
  have 1: "?xs \<noteq> []" by simp
  have 2: "list_all isConversationMessageObject ?xs" by code_simp
  have 3: "JArr ?xs = JArr ?xs \<or> (is_plain_object (JArr ?xs) \<and> js_get (JArr ?xs) ''scenarios'' = JArr ?xs)"
    by simp
  from message_array_is_one_scenario [OF 1 2 3] obtain rec where
    "coerceScenariosPayloadToMap example_tables (JArr ?xs) = [(''1'', JObj rec)]" by blast
  then show ?thesis by code_simp
qed

text \<open>The empty array: every element looks like a message, and no scenario is produced.\<close>

theorem message_array_empty_counterexample:
  "list_all isConversationMessageObject []
   \<and> coerceScenariosPayloadToMap example_tables (JArr []) = []
   \<and> coerceScenariosPayloadToMap example_tables (JObj [(''scenarios'', JArr [])]) = []"
  by code_simp

subsection \<open>Unrecognized payload shapes\<close>

text \<open>
  C5 at the payload \<open>{"scenarios": "ab"}\<close>, an object with neither a scenarios object nor
  a scenarios array: the first branch of \<open>coerceScenariosPayloadToMap\<close> only asks that
  \<open>data.scenarios\<close> be truthy and not an array, so the string's two index keys become two
  scenarios.
\<close>

theorem coerce_string_scenarios_yields_records:
  "coerceScenariosPayloadToMap tbl (JObj [(''scenarios'', JStr ''ab'')]) =
     [(''0'', JObj [(''guidelines'', JObj []), (''notes'', JObj []), (''rightPanel'', JObj []),
                    (''conversation'', JArr []), (''agentName'', JStr []),
                    (''companyName'', JStr ''Scenario 0''), (''agentInitial'', JStr ''S'')]),
      (''1'', JObj [(''guidelines'', JObj []), (''notes'', JObj []), (''rightPanel'', JObj []),
                    (''conversation'', JArr []), (''agentName'', JStr []),
                    (''companyName'', JStr ''Scenario 1''), (''agentInitial'', JStr ''S'')])]"
  by code_simp

text \<open>
  The shapes for which the normalizer does return the empty map: a top level that is not
  an object or array, and an object whose \<open>scenarios\<close> is missing, falsy, a number or
  \<open>true\<close>.
\<close>

lemma coerce_unrecognized_shape_empty:
  assumes "\<not> is_object data \<or>
           (is_plain_object data \<and>
             (\<not> truthy (js_get data ''scenarios'') \<or> (\<exists>n. js_get data ''scenarios'' = JNum n)
              \<or> js_get data ''scenarios'' = JBool True))"
  shows "coerceScenariosPayloadToMap tbl data = []"
proof -
  have a: "\<not> truthy v \<Longrightarrow> \<not> is_array v" for v by (cases v) auto
  show ?thesis
    using assms
    by (cases data) (auto simp: coerceScenariosPayloadToMap_def Let_def a)
qed

subsection \<open>Company name and initial\<close>

text \<open>
  C9, as the code has it. Every record of a normalized scenario map is built by
  \<open>normalizeScenarioRecord\<close> from the raw scenario that the payload lists under the
  record's key, over the payload's defaults (\<open>data.defaults\<close>, or \<open>{}\<close> when that is falsy
  or the payload is not an object). Its \<open>companyName\<close> is truthy: when the scenario and
  the defaults list each key once, it is the merged value (the scenario's own
  \<open>companyName\<close> when the scenario has that property, the defaults' otherwise) when that
  is truthy, and "Scenario {key}" otherwise. Its \<open>agentInitial\<close> is derived from that
  name: the empty string when the trimmed text of the name is empty, and otherwise what
  upper-casing gives for the first code unit of the trimmed text, which is one capital
  letter or the unit itself when the unit is ASCII, and can be longer outside ASCII.
\<close>

theorem scenario_record_company_and_initial:
  assumes "(key, rec) \<in> set (coerceScenariosPayloadToMap tbl data)"
  shows "\<exists>raw. (key, raw) \<in> set (payload_scenarios data)
           \<and> (let defaults = (if is_plain_object data then js_or (js_get data ''defaults'') (JObj [])
                                else JObj []);
                   scenario = scenarioObject_of raw;
                   merged = (if has_own scenario ''companyName'' then js_get scenario ''companyName''
                             else js_get defaults ''companyName'');
                   name = trim tbl (js_String (js_get rec ''companyName''))
               in rec = JObj (normalizeScenarioRecord tbl raw defaults key)
                  \<and> truthy (js_get rec ''companyName'')
                  \<and> (keys_once scenario \<and> keys_once defaults \<longrightarrow>
                       js_get rec ''companyName'' =
                         (if truthy merged then merged else JStr (''Scenario '' @ key)))
                  \<and> js_get rec ''agentInitial'' =
                       JStr (case name of [] \<Rightarrow> [] | c # rest \<Rightarrow> toUpperCase tbl [c])
                  \<and> (\<forall>c rest. name = c # rest \<and> is_ascii c \<longrightarrow>
                        js_get rec ''agentInitial'' = JStr [upper_char c]))"
proof -
  let ?d = "if is_plain_object data then js_or (js_get data ''defaults'') (JObj []) else JObj []"
  from records_of_coerce[of tbl data] assms obtain raw where
    raw: "(key, raw) \<in> set (payload_scenarios data)"
    and rec: "rec = JObj (normalizeScenarioRecord tbl raw ?d key)"
    unfolding records_of_def by blast
  let ?so = "scenarioObject_of raw"
  let ?merged = "if has_own ?so ''companyName'' then js_get ?so ''companyName''
                 else js_get ?d ''companyName''"
  let ?name = "trim tbl (js_String (js_get rec ''companyName''))"
  have t: "truthy (js_get rec ''companyName'')"
    unfolding rec by (rule record_companyName_truthy)
  have m: "js_get rec ''companyName'' = (if truthy ?merged then ?merged else JStr (''Scenario '' @ key))"
    if "keys_once ?so \<and> keys_once ?d"
    unfolding rec record_companyName using that by (simp only: merged_companyName)
  have i: "js_get rec ''agentInitial'' =
             JStr (case ?name of [] \<Rightarrow> [] | c # rest \<Rightarrow> toUpperCase tbl [c])"
    using record_agentInitial[of tbl raw ?d key] t
    unfolding rec[symmetric] by (simp only: getCompanyInitial_truthy)
  have a: "\<forall>c rest. ?name = c # rest \<and> is_ascii c \<longrightarrow>
             js_get rec ''agentInitial'' = JStr [upper_char c]"
    unfolding i by (auto simp: toUpperCase_ascii)
  from raw rec t m i a show ?thesis unfolding Let_def by blast
qed

text \<open>
  A payload with defaults: scenario 7 has no company name of its own and takes the one of
  the defaults, and its initial is the capital of the name's first letter.
\<close>

theorem scenario_record_company_and_initial_witness:
  "(''7'', JObj [(''companyName'', JStr ''acme''), (''agentName'', JStr ''Bo''),
                 (''guidelines'', JObj []), (''notes'', JObj []), (''rightPanel'', JObj []),
                 (''conversation'', JArr []), (''agentInitial'', JStr ''A'')])
     \<in> set (coerceScenariosPayloadToMap example_tables
              (JObj [(''defaults'', JObj [(''companyName'', JStr ''acme'')]),
                     (''scenarios'', JObj [(''7'', JObj [(''agentName'', JStr ''Bo'')])])]))
   \<and> payload_scenarios
        (JObj [(''defaults'', JObj [(''companyName'', JStr ''acme'')]),
               (''scenarios'', JObj [(''7'', JObj [(''agentName'', JStr ''Bo'')])])])
      = [(''7'', JObj [(''agentName'', JStr ''Bo'')])]
   \<and> keys_once (scenarioObject_of (JObj [(''agentName'', JStr ''Bo'')]))
   \<and> keys_once (JObj [(''companyName'', JStr ''acme'')])
   \<and> \<not> has_own (scenarioObject_of (JObj [(''agentName'', JStr ''Bo'')])) ''companyName''
   \<and> js_get (JObj [(''companyName'', JStr ''acme''), (''agentName'', JStr ''Bo''),
                 (''guidelines'', JObj []), (''notes'', JObj []), (''rightPanel'', JObj []),
                 (''conversation'', JArr []), (''agentInitial'', JStr ''A'')]) ''companyName''
       = js_get (JObj [(''companyName'', JStr ''acme'')]) ''companyName''
   \<and> trim example_tables ''acme'' = CHR ''a'' # ''cme'' \<and> is_ascii CHR ''a''
   \<and> [upper_char CHR ''a''] = ''A''"
proof -
  let ?defaults = "JObj [(''companyName'', JStr ''acme'')]"
  let ?raw = "JObj [(''agentName'', JStr ''Bo'')]"
  let ?data = "JObj [(''defaults'', ?defaults), (''scenarios'', JObj [(''7'', ?raw)])]"
  let ?rec = "JObj [(''companyName'', JStr ''acme''), (''agentName'', JStr ''Bo''),
                 (''guidelines'', JObj []), (''notes'', JObj []), (''rightPanel'', JObj []),
                 (''conversation'', JArr []), (''agentInitial'', JStr ''A'')]"
  have h: "(''7'', ?rec) \<in> set (coerceScenariosPayloadToMap example_tables ?data)"
    by code_simp
  have p: "payload_scenarios ?data = [(''7'', ?raw)]" by code_simp
  have d: "(if is_plain_object ?data then js_or (js_get ?data ''defaults'') (JObj []) else JObj [])
             = ?defaults" by code_simp
  have k: "keys_once (scenarioObject_of ?raw)" "keys_once ?defaults" by code_simp+
  have o: "\<not> has_own (scenarioObject_of ?raw) ''companyName''" by code_simp
  have n: "trim example_tables (js_String (js_get ?rec ''companyName'')) = CHR ''a'' # ''cme''"
    "is_ascii CHR ''a''"
    by code_simp+
  from scenario_record_company_and_initial [OF h] obtain raw where
    raw: "(''7'', raw) \<in> set (payload_scenarios ?data)"
    and name: "keys_once (scenarioObject_of raw) \<and> keys_once ?defaults \<longrightarrow>
            js_get ?rec ''companyName'' =
              (if truthy (if has_own (scenarioObject_of raw) ''companyName''
                          then js_get (scenarioObject_of raw) ''companyName''
                          else js_get ?defaults ''companyName'')
               then (if has_own (scenarioObject_of raw) ''companyName''
                     then js_get (scenarioObject_of raw) ''companyName''
                     else js_get ?defaults ''companyName'')
               else JStr (''Scenario '' @ ''7''))"
    and initial: "\<forall>c rest. trim example_tables (js_String (js_get ?rec ''companyName'')) = c # rest
                     \<and> is_ascii c \<longrightarrow> js_get ?rec ''agentInitial'' = JStr [upper_char c]"
    unfolding Let_def d by blast
  from raw have r: "raw = ?raw" unfolding p by simp
  have tr: "truthy (js_get ?defaults ''companyName'')" by simp
  from name k o tr have 1: "js_get ?rec ''companyName'' = js_get ?defaults ''companyName''"
    unfolding r by (simp only: simp_thms if_True if_False)
  from initial n have 2: "[upper_char CHR ''a''] = ''A''" by auto
  have 3: "trim example_tables ''acme'' = CHR ''a'' # ''cme''" using n(1) by simp
  from h p k o 1 3 n(2) 2 show ?thesis by blast
qed

text \<open>A company name of one space is kept, and its initial is empty.\<close>

theorem blank_company_initial_counterexample:
  "coerceScenariosPayloadToMap example_tables
     (JObj [(''scenarios'', JObj [(''1'', JObj [(''companyName'', JStr '' '')])])]) =
     [(''1'', JObj [(''companyName'', JStr '' ''), (''guidelines'', JObj []), (''notes'', JObj []),
                    (''rightPanel'', JObj []), (''conversation'', JArr []), (''agentName'', JStr []),
                    (''agentInitial'', JStr [])])]"
  by code_simp

text \<open>
  Names that begin outside ASCII, with the example table: a name of U+00A0 alone has the
  empty initial, a name that begins with the sharp s has the initial \<open>SS\<close>, and one that
  begins with U+00E9 has the initial U+00C9.
\<close>

lemma company_initial_outside_ascii_example:
  "getCompanyInitial example_tables (JStr [CHR 0xA0]) = []
   \<and> getCompanyInitial example_tables (JStr (CHR 0xDF # ''eta'')) = ''SS''
   \<and> getCompanyInitial example_tables (JStr (CHR 0xE9 # ''cole'')) = [CHR 0xC9]"
  by code_simp

subsection \<open>Idempotence\<close>




text \<open>
  A record whose conversation normalized to the empty list: passed back under
  \<open>scenarios\<close>, its \<open>messages\<close> array, which the first pass did not read, becomes the
  conversation.
\<close>

lemma renormalize_empty_conversation_example:
  "coerceScenariosPayloadToMap example_tables
     (JObj [(''scenarios'', JObj [(''1'', JObj
        [(''conversation'', JArr [JObj [(''role'', JStr ''agent''), (''content'', JStr [])]]),
         (''messages'', JArr [JObj [(''role'', JStr ''agent''), (''content'', JStr ''hi'')]])])])])
   = [(''1'', JObj
        [(''conversation'', JArr []),
         (''messages'', JArr [JObj [(''role'', JStr ''agent''), (''content'', JStr ''hi'')]]),
         (''guidelines'', JObj []), (''notes'', JObj []), (''rightPanel'', JObj []),
         (''agentName'', JStr []), (''companyName'', JStr ''Scenario 1''),
         (''agentInitial'', JStr ''S'')])]
   \<and> coerceScenariosPayloadToMap example_tables
     (JObj [(''scenarios'', JObj [(''1'', JObj
        [(''conversation'', JArr []),
         (''messages'', JArr [JObj [(''role'', JStr ''agent''), (''content'', JStr ''hi'')]]),
         (''guidelines'', JObj []), (''notes'', JObj []), (''rightPanel'', JObj []),
         (''agentName'', JStr []), (''companyName'', JStr ''Scenario 1''),
         (''agentInitial'', JStr ''S'')])])])
   = [(''1'', JObj
        [(''conversation'', JArr [JObj [(''role'', JStr ''agent''), (''content'', JStr ''hi'')]]),
         (''messages'', JArr [JObj [(''role'', JStr ''agent''), (''content'', JStr ''hi'')]]),
         (''guidelines'', JObj []), (''notes'', JObj []), (''rightPanel'', JObj []),
         (''agentName'', JStr []), (''companyName'', JStr ''Scenario 1''),
         (''agentInitial'', JStr ''S'')])]"
  by code_simp

subsection \<open>Conversation navigation\<close>




subsection \<open>Label lists\<close>

text \<open>
  C4, as the code has it. The editor's \<open>Get-UniqueTrimmedStringArray\<close>, which
  \<open>Normalize-ScenarioRecordForStorage\<close> applies to \<open>blocklisted_words\<close> and
  \<open>escalation_preferences\<close>, works on the texts of the value's leaves: each leaf is
  normalized and trimmed and dropped when it is empty or compares equal to "{}" or "[]",
  then normalized and trimmed once more and dropped when empty. Of these texts, in their
  order, it returns each one whose lower-cased key the hash table does not hold yet. So
  the result is a subsequence of the texts, no returned entry's key is found equal to the
  key of an earlier returned entry, and every text is returned or has a key equal to that
  of a returned entry; as the table's comparison finds every key equal to itself, no two
  returned entries have the same lower-cased text. The console's \<open>normalizeScenarioLabelList\<close> removes no duplicate:
  for an array it returns one entry for every item whose trimmed text is non-empty, is not
  "[object Object]" and is non-empty without its quotes, in the order of the items, and a
  list of non-empty, trimmed, unquoted strings comes back unchanged.
\<close>

theorem label_lists_deduplicated_by_editor_only:
  "(let out = Get_UniqueTrimmedStringArray net v;
        texts = candidate_texts net v;
        key = ToLowerInvariant net
    in out = keep_first_by_key net [] texts
       \<and> subseq out texts
       \<and> sorted_wrt (\<lambda>a b. \<not> key_equals net (key a) (key b)) out
       \<and> (\<forall>t \<in> set texts. t \<in> set out \<or> (\<exists>r \<in> set out. key_equals net (key r) (key t)))
       \<and> ((\<forall>k. key_equals net k k) \<longrightarrow> distinct (map key out)))
   \<and> normalizeScenarioLabelList tbl (JArr items) =
       map (\<lambda>item. strip_quotes (trim tbl (js_String (js_or item (JStr [])))))
         (filter (\<lambda>item. trim tbl (js_String (js_or item (JStr []))) \<noteq> []
                      \<and> trim tbl (js_String (js_or item (JStr []))) \<noteq> ''[object Object]''
                      \<and> strip_quotes (trim tbl (js_String (js_or item (JStr [])))) \<noteq> [])
            items)
   \<and> ((\<forall>s \<in> set ts. s \<noteq> [] \<and> trim tbl s = s \<and> s \<noteq> ''[object Object]''
                        \<and> \<not> is_quote (hd s) \<and> \<not> is_quote (last s))
        \<longrightarrow> normalizeScenarioLabelList tbl (JArr (map JStr ts)) = ts)"
proof -
  let ?texts = "candidate_texts net v"
  have out: "Get_UniqueTrimmedStringArray net v = keep_first_by_key net [] ?texts"
    unfolding Get_UniqueTrimmedStringArray_def unique_loop_keep_first candidate_texts_Convert
    by simp
  have cover: "\<forall>t \<in> set ?texts. t \<in> set (keep_first_by_key net [] ?texts)
                 \<or> (\<exists>r \<in> set (keep_first_by_key net [] ?texts).
                       key_equals net (ToLowerInvariant net r) (ToLowerInvariant net t))"
    using keep_first_covers[of _ ?texts net "[]"] by auto
  have console: "normalizeScenarioLabelList tbl (JArr items) =
       map (\<lambda>item. strip_quotes (trim tbl (js_String (js_or item (JStr [])))))
         (filter (\<lambda>item. trim tbl (js_String (js_or item (JStr []))) \<noteq> []
                      \<and> trim tbl (js_String (js_or item (JStr []))) \<noteq> ''[object Object]''
                      \<and> strip_quotes (trim tbl (js_String (js_or item (JStr [])))) \<noteq> [])
            items)"
    by (simp add: normalizeScenarioLabelList_def label_texts_items)
  have clean: "(\<forall>s \<in> set ts. s \<noteq> [] \<and> trim tbl s = s \<and> s \<noteq> ''[object Object]''
                        \<and> \<not> is_quote (hd s) \<and> \<not> is_quote (last s))
        \<longrightarrow> normalizeScenarioLabelList tbl (JArr (map JStr ts)) = ts"
    by (simp add: normalizeScenarioLabelList_def label_texts_clean)
  have dist: "(\<forall>k. key_equals net k k) \<longrightarrow>
                distinct (map (ToLowerInvariant net) (keep_first_by_key net [] ?texts))"
    using keep_first_distinct by blast
  show ?thesis
    unfolding Let_def out
    using keep_first_subseq[of net "[]" ?texts] keep_first_pairwise[of net "[]" ?texts]
      cover dist console clean
    by blast
qed

text \<open>The console's list for an array with repeated entries.\<close>

theorem label_lists_not_deduplicated_counterexample:
  "normalizeScenarioLabelList example_tables (JArr [JStr ''Refund'', JStr ''refund'', JStr ''Refund''])
     = [''Refund'', ''refund'', ''Refund'']"
  by code_simp

text \<open>
  The editor on a list with blank, brace and repeated entries, among them two spellings
  of a word whose last letter lies outside ASCII (U+00E9 and its capital U+00C9); and
  the console on a clean list with a repeated entry.
\<close>

theorem label_lists_deduplicated_by_editor_only_witness:
  "Get_UniqueTrimmedStringArray example_dotnet
     (PsArray [Some '' Refund'', Some ''{}'', Some ''refund '', None, Some (''Caf'' @ [CHR 0xE9]),
               Some ''[]'', Some (''CAF'' @ [CHR 0xC9]), Some ''Chargeback'', Some ''REFUND''])
     = [''Refund'', ''Caf'' @ [CHR 0xE9], ''Chargeback'']
   \<and> candidate_texts example_dotnet
     (PsArray [Some '' Refund'', Some ''{}'', Some ''refund '', None, Some (''Caf'' @ [CHR 0xE9]),
               Some ''[]'', Some (''CAF'' @ [CHR 0xC9]), Some ''Chargeback'', Some ''REFUND''])
     = [''Refund'', ''refund'', ''Caf'' @ [CHR 0xE9], ''CAF'' @ [CHR 0xC9], ''Chargeback'', ''REFUND'']
   \<and> distinct (map toLowerCase [''Refund'', ''Caf'' @ [CHR 0xE9], ''Chargeback''])
   \<and> list_all (\<lambda>s. s \<noteq> [] \<and> trim example_tables s = s \<and> s \<noteq> ''[object Object]''
                    \<and> \<not> is_quote (hd s) \<and> \<not> is_quote (last s))
        [''Late order'', ''late order'', ''Late order'']
   \<and> normalizeScenarioLabelList example_tables
        (JArr (map JStr [''Late order'', ''late order'', ''Late order'']))
     = [''Late order'', ''late order'', ''Late order'']"
proof -
  let ?v = "PsArray [Some '' Refund'', Some ''{}'', Some ''refund '', None, Some (''Caf'' @ [CHR 0xE9]),
               Some ''[]'', Some (''CAF'' @ [CHR 0xC9]), Some ''Chargeback'', Some ''REFUND'']"
  let ?ts = "[''Late order'', ''late order'', ''Late order'']"
  have texts: "candidate_texts example_dotnet ?v
     = [''Refund'', ''refund'', ''Caf'' @ [CHR 0xE9], ''CAF'' @ [CHR 0xC9], ''Chargeback'', ''REFUND'']"
    by code_simp
  have kept: "keep_first_by_key example_dotnet []
                [''Refund'', ''refund'', ''Caf'' @ [CHR 0xE9], ''CAF'' @ [CHR 0xC9], ''Chargeback'', ''REFUND'']
              = [''Refund'', ''Caf'' @ [CHR 0xE9], ''Chargeback'']"
    by code_simp
  have clean: "list_all (\<lambda>s. s \<noteq> [] \<and> trim example_tables s = s \<and> s \<noteq> ''[object Object]''
                    \<and> \<not> is_quote (hd s) \<and> \<not> is_quote (last s)) ?ts"
    by code_simp
  note inst = label_lists_deduplicated_by_editor_only
               [where net = example_dotnet and v = ?v and tbl = example_tables and ts = ?ts]
  from inst have "Get_UniqueTrimmedStringArray example_dotnet ?v
                   = keep_first_by_key example_dotnet [] (candidate_texts example_dotnet ?v)"
    unfolding Let_def by blast
  then have 1: "Get_UniqueTrimmedStringArray example_dotnet ?v
                  = [''Refund'', ''Caf'' @ [CHR 0xE9], ''Chargeback'']"
    unfolding texts kept .
  from inst clean have 2: "normalizeScenarioLabelList example_tables (JArr (map JStr ?ts)) = ?ts"
    unfolding list_all_iff by blast
  have refl: "\<forall>k. key_equals example_dotnet k k" by (simp add: example_dotnet_def)
  from inst refl
  have "distinct (map (ToLowerInvariant example_dotnet) (Get_UniqueTrimmedStringArray example_dotnet ?v))"
    unfolding Let_def by blast
  then have 3: "distinct (map toLowerCase [''Refund'', ''Caf'' @ [CHR 0xE9], ''Chargeback''])"
    unfolding 1 by (simp add: example_dotnet_def)
  from 1 texts 3 clean 2 show ?thesis by blast
qed

end
